theory Spec2Isabelle
  imports Main "HOL-Library.Word" "HOL-Library.AList" "HOL-Library.Multiset"
begin

section \<open>The Proxmox provider plugin: data model\<close>

text \<open>
  The embedding follows \<^verbatim>\<open>provider/provider.go\<close>. Log output is not modelled; the
  \<^verbatim>\<open>context.Context\<close> argument is only handed on to the API client and is left out.
\<close>

subsection \<open>Errors\<close>

text \<open>
  \<^verbatim>\<open>errors.New(msg)\<close> is \<open>ErrorNew msg\<close>; \<^verbatim>\<open>fmt.Errorf("prefix: %w", err)\<close> is
  \<open>Errorf prefix err\<close>; \<^verbatim>\<open>fmt.Errorf("text %v", d)\<close> on a duration is \<open>ErrorDuration text d\<close>.
\<close>

datatype error =
    ErrorNew string
  | Errorf string error
  | ErrorDuration string "64 word"

subsection \<open>Types of the package \<^verbatim>\<open>internal\<close>\<close>

text \<open>
  The package \<^verbatim>\<open>internal\<close> is not among the sources. Its types are declared here with the
  fields \<^verbatim>\<open>provider.go\<close> reads and writes.
\<close>

record IP =
  Address :: string

record Service =
  ID :: "64 word"
  Name :: string
  Config :: "string \<rightharpoonup> string"
  IPs :: "IP list"

record NodeStatus =
  Node :: string

record VirtualMachine =
  VMID :: "64 word"
  VMName :: string
  Status :: string

record Container =
  CTID :: "64 word"
  CTName :: string
  CTStatus :: string

record Version =
  Release :: string

text \<open>
  Modelled from the spec: \<^verbatim>\<open>internal.NewService\<close> is missing from the sources. The spec
  calls it a pure constructor of the service record from ID, name and directive map; a
  service whose address lookup failed has an empty address list.
\<close>

definition NewService :: "64 word \<Rightarrow> string \<Rightarrow> (string \<rightharpoonup> string) \<Rightarrow> Service" where
  "NewService vmid name config = \<lparr>ID = vmid, Name = name, Config = config, IPs = []\<rparr>"

text \<open>
  The API client is a black box. Every call reads the cluster, so it takes the state of
  the outside world \<open>'w\<close> and returns the next one with its answer; \<open>Inl\<close> is a failed call.
  \<open>'cfg\<close> and \<open>'ifs\<close> are the client's answer types for a workload's configuration and
  network interfaces; their methods \<^verbatim>\<open>GetTraefikMap\<close> and \<^verbatim>\<open>GetIPs\<close> (also missing from the
  sources) are carried along as the two pure fields at the end.
\<close>

record ('cfg, 'ifs, 'w) ProxmoxClient =
  GetVersion :: "'w \<Rightarrow> (error + Version) \<times> 'w"
  GetNodes :: "'w \<Rightarrow> (error + NodeStatus list) \<times> 'w"
  GetVirtualMachines :: "string \<Rightarrow> 'w \<Rightarrow> (error + VirtualMachine list) \<times> 'w"
  GetContainers :: "string \<Rightarrow> 'w \<Rightarrow> (error + Container list) \<times> 'w"
  GetVMConfig :: "string \<Rightarrow> 64 word \<Rightarrow> 'w \<Rightarrow> (error + 'cfg) \<times> 'w"
  GetContainerConfig :: "string \<Rightarrow> 64 word \<Rightarrow> 'w \<Rightarrow> (error + 'cfg) \<times> 'w"
  GetVMNetworkInterfaces :: "string \<Rightarrow> 64 word \<Rightarrow> 'w \<Rightarrow> (error + 'ifs) \<times> 'w"
  GetTraefikMap :: "'cfg \<Rightarrow> (string \<rightharpoonup> string)"
  GetIPs :: "'ifs \<Rightarrow> IP list"

subsection \<open>Types of \<^verbatim>\<open>genconf/dynamic\<close>\<close>

text \<open>
  Of the library's structs, the fields that \<^verbatim>\<open>generateConfiguration\<close> sets; a Go pointer
  is an \<open>option\<close>. The element types of the collections that are only allocated are opaque.
\<close>

record Server =
  URL :: string

record ServersLoadBalancer =
  PassHostHeader :: "bool option"
  Servers :: "Server list"

record dynamic_Service =
  LoadBalancer :: "ServersLoadBalancer option"

record Router =
  RouterService :: string
  Rule :: string
  Priority :: int

typedecl Middleware
typedecl ServersTransport
typedecl TCPRouter
typedecl TCPService
typedecl UDPRouter
typedecl UDPService
typedecl Store
typedecl Options

record HTTPConfiguration =
  Routers :: "string \<rightharpoonup> Router"
  Middlewares :: "string \<rightharpoonup> Middleware"
  Services :: "string \<rightharpoonup> dynamic_Service"
  ServersTransports :: "string \<rightharpoonup> ServersTransport"

record TCPConfiguration =
  TCPRouters :: "string \<rightharpoonup> TCPRouter"
  TCPServices :: "string \<rightharpoonup> TCPService"

record TLSConfiguration =
  TLSStores :: "string \<rightharpoonup> Store"
  TLSOptions :: "string \<rightharpoonup> Options"

record UDPConfiguration =
  UDPRouters :: "string \<rightharpoonup> UDPRouter"
  UDPServices :: "string \<rightharpoonup> UDPService"

record Configuration =
  HTTP :: "HTTPConfiguration option"
  TCP :: "TCPConfiguration option"
  TLS :: "TLSConfiguration option"
  UDP :: "UDPConfiguration option"

datatype JSONPayload = JSONPayload Configuration

type_synonym Time = int

section \<open>The configuration synthesizer\<close>

text \<open>\<^verbatim>\<open>%d\<close> of an unsigned integer: its decimal digits, most significant first.\<close>

fun decimal :: "nat \<Rightarrow> string" where
  "decimal n =
     (if n < 10 then [''0123456789'' ! n]
      else decimal (n div 10) @ [''0123456789'' ! (n mod 10)])"

declare decimal.simps [simp del]

text \<open>\<^verbatim>\<open>serviceName := fmt.Sprintf("%s-%d", service.Name, service.ID)\<close>\<close>

definition serviceName :: "Service \<Rightarrow> string" where
  "serviceName service = Name service @ ''-'' @ decimal (unat (ID service))"

text \<open>
  The port of an endpoint: \<^verbatim>\<open>port := "80"\<close>, overwritten by the directive
  \<^verbatim>\<open>traefik.http.services.port\<close> when the key exists. The source has these lines twice,
  once in each branch.
\<close>

definition port :: "Service \<Rightarrow> string" where
  "port service =
     (case Config service ''traefik.http.services.port'' of
        Some customPort \<Rightarrow> customPort
      | None \<Rightarrow> ''80'')"

text \<open>The loop \<^verbatim>\<open>for _, ip := range service.IPs\<close>, appending to \<^verbatim>\<open>lb.Servers\<close>.\<close>

fun addServers :: "Service \<Rightarrow> IP list \<Rightarrow> Server list \<Rightarrow> Server list" where
  "addServers service [] servers = servers"
| "addServers service (ip # ips) servers =
     (if Address ip \<noteq> []
      then addServers service ips
             (servers @ [\<lparr>URL = ''http://'' @ Address ip @ '':'' @ port service\<rparr>])
      else addServers service ips servers)"

text \<open>\<^verbatim>\<open>lb.Servers\<close> after the statement \<^verbatim>\<open>if len(service.IPs) > 0 { ... } else { ... }\<close>.\<close>

definition lbServers :: "string \<Rightarrow> Service \<Rightarrow> Server list" where
  "lbServers nodeName service =
     (if length (IPs service) > 0 then addServers service (IPs service) []
      else [] @ [\<lparr>URL = ''http://'' @ Name service @ ''.'' @ nodeName @ '':'' @ port service\<rparr>])"

text \<open>
  The body of the inner loop on one service. Only the maps behind
  \<^verbatim>\<open>configuration.HTTP\<close> are written, so the body is a function on that struct.
\<close>

definition processService :: "string \<Rightarrow> Service \<Rightarrow> HTTPConfiguration \<Rightarrow> HTTPConfiguration" where
  "processService nodeName service http =
     (case Config service ''traefik.enable'' of
        None \<Rightarrow> http
      | Some enable \<Rightarrow>
          if enable \<noteq> ''true'' then http
          else
            let servers = lbServers nodeName service in
            if length servers > 0 then
              let http1 = http\<lparr>Services := (Services http)(serviceName service \<mapsto>
                            \<lparr>LoadBalancer = Some \<lparr>PassHostHeader = Some True, Servers = servers\<rparr>\<rparr>)\<rparr>;
                  routerRule =
                    (case Config service ''traefik.http.routers.rule'' of
                       Some customRule \<Rightarrow> customRule
                     | None \<Rightarrow> ''Host(`'' @ Name service @ ''`)'')
              in http1\<lparr>Routers := (Routers http1)(serviceName service \<mapsto>
                   \<lparr>RouterService = serviceName service, Rule = routerRule, Priority = 1\<rparr>)\<rparr>
            else http)"

fun servicesLoop :: "string \<Rightarrow> Service list \<Rightarrow> HTTPConfiguration \<Rightarrow> HTTPConfiguration" where
  "servicesLoop nodeName [] http = http"
| "servicesLoop nodeName (service # services) http =
     servicesLoop nodeName services (processService nodeName service http)"

text \<open>
  \<^verbatim>\<open>for nodeName, services := range servicesMap\<close>: Go visits the entries of a map in an
  order of the runtime's choosing. The list is the map's entries in the order of the visit;
  it has each node name once.
\<close>

fun nodesLoop :: "(string \<times> Service list) list \<Rightarrow> HTTPConfiguration \<Rightarrow> HTTPConfiguration" where
  "nodesLoop [] http = http"
| "nodesLoop ((nodeName, services) # entries) http =
     nodesLoop entries (servicesLoop nodeName services http)"

definition generateConfiguration :: "Time \<Rightarrow> (string \<times> Service list) list \<Rightarrow> Configuration" where
  "generateConfiguration date servicesMap =
     \<lparr>HTTP = Some (nodesLoop servicesMap
               \<lparr>Routers = Map.empty, Middlewares = Map.empty,
                Services = Map.empty, ServersTransports = Map.empty\<rparr>),
      TCP = Some \<lparr>TCPRouters = Map.empty, TCPServices = Map.empty\<rparr>,
      TLS = Some \<lparr>TLSStores = Map.empty, TLSOptions = Map.empty\<rparr>,
      UDP = Some \<lparr>UDPRouters = Map.empty, UDPServices = Map.empty\<rparr>\<rparr>"

section \<open>Discovery\<close>

definition getIPsOfService ::
  "('cfg, 'ifs, 'w) ProxmoxClient \<Rightarrow> string \<Rightarrow> 64 word \<Rightarrow> 'w \<Rightarrow> (error + IP list) \<times> 'w" where
  "getIPsOfService client nodeName vmID w =
     (case GetVMNetworkInterfaces client nodeName vmID w of
        (Inl err, w') \<Rightarrow> (Inl (Errorf ''error getting network interfaces'' err), w')
      | (Inr interfaces, w') \<Rightarrow> (Inr (GetIPs client interfaces), w'))"

text \<open>
  The first loop of \<^verbatim>\<open>scanServices\<close>, \<^verbatim>\<open>for _, vm := range vms\<close>; \<open>services\<close> is the
  slice built so far. A failed \<^verbatim>\<open>GetVMConfig\<close> is the \<^verbatim>\<open>continue\<close>; a failed address
  lookup leaves \<^verbatim>\<open>service.IPs\<close> as \<^verbatim>\<open>NewService\<close> set it.
\<close>

fun scanVMs ::
  "('cfg, 'ifs, 'w) ProxmoxClient \<Rightarrow> string \<Rightarrow> VirtualMachine list \<Rightarrow> Service list \<Rightarrow> 'w
     \<Rightarrow> Service list \<times> 'w" where
  "scanVMs client nodeName [] services w = (services, w)"
| "scanVMs client nodeName (vm # vms) services w =
     (if Status vm = ''running'' then
        (case GetVMConfig client nodeName (VMID vm) w of
           (Inl err, w1) \<Rightarrow> scanVMs client nodeName vms services w1
         | (Inr config, w1) \<Rightarrow>
             let traefikConfig = GetTraefikMap client config;
                 service = NewService (VMID vm) (VMName vm) traefikConfig
             in (case getIPsOfService client nodeName (VMID vm) w1 of
                   (Inr ips, w2) \<Rightarrow>
                     scanVMs client nodeName vms (services @ [service\<lparr>IPs := ips\<rparr>]) w2
                 | (Inl err, w2) \<Rightarrow>
                     scanVMs client nodeName vms (services @ [service]) w2))
      else scanVMs client nodeName vms services w)"

text \<open>The second loop, \<^verbatim>\<open>for _, ct := range cts\<close>.\<close>

fun scanContainers ::
  "('cfg, 'ifs, 'w) ProxmoxClient \<Rightarrow> string \<Rightarrow> Container list \<Rightarrow> Service list \<Rightarrow> 'w
     \<Rightarrow> Service list \<times> 'w" where
  "scanContainers client nodeName [] services w = (services, w)"
| "scanContainers client nodeName (ct # cts) services w =
     (if CTStatus ct = ''running'' then
        (case GetContainerConfig client nodeName (CTID ct) w of
           (Inl err, w1) \<Rightarrow> scanContainers client nodeName cts services w1
         | (Inr config, w1) \<Rightarrow>
             let traefikConfig = GetTraefikMap client config;
                 service = NewService (CTID ct) (CTName ct) traefikConfig
             in (case getIPsOfService client nodeName (CTID ct) w1 of
                   (Inr ips, w2) \<Rightarrow>
                     scanContainers client nodeName cts (services @ [service\<lparr>IPs := ips\<rparr>]) w2
                 | (Inl err, w2) \<Rightarrow>
                     scanContainers client nodeName cts (services @ [service]) w2))
      else scanContainers client nodeName cts services w)"

definition scanServices ::
  "('cfg, 'ifs, 'w) ProxmoxClient \<Rightarrow> string \<Rightarrow> 'w \<Rightarrow> (error + Service list) \<times> 'w" where
  "scanServices client nodeName w =
     (case GetVirtualMachines client nodeName w of
        (Inl err, w1) \<Rightarrow> (Inl (Errorf (''error scanning VMs on node '' @ nodeName) err), w1)
      | (Inr vms, w1) \<Rightarrow>
          (case scanVMs client nodeName vms [] w1 of
             (services, w2) \<Rightarrow>
               (case GetContainers client nodeName w2 of
                  (Inl err, w3) \<Rightarrow>
                    (Inl (Errorf (''error scanning containers on node '' @ nodeName) err), w3)
                | (Inr cts, w3) \<Rightarrow>
                    (case scanContainers client nodeName cts services w3 of
                       (services', w4) \<Rightarrow> (Inr services', w4)))))"

text \<open>
  The loop of \<^verbatim>\<open>getServiceMap\<close>, \<^verbatim>\<open>for _, nodeStatus := range nodes\<close>. The Go map under
  construction is an association list with each key once; the assignment
  \<^verbatim>\<open>servicesMap[nodeStatus.Node] = services\<close> is \<open>AList.update\<close>.
\<close>

fun scanNodes ::
  "('cfg, 'ifs, 'w) ProxmoxClient \<Rightarrow> NodeStatus list \<Rightarrow> (string \<times> Service list) list \<Rightarrow> 'w
     \<Rightarrow> (string \<times> Service list) list \<times> 'w" where
  "scanNodes client [] servicesMap w = (servicesMap, w)"
| "scanNodes client (nodeStatus # nodes) servicesMap w =
     (case scanServices client (Node nodeStatus) w of
        (Inl err, w1) \<Rightarrow> scanNodes client nodes servicesMap w1
      | (Inr services, w1) \<Rightarrow>
          scanNodes client nodes (AList.update (Node nodeStatus) services servicesMap) w1)"

definition getServiceMap ::
  "('cfg, 'ifs, 'w) ProxmoxClient \<Rightarrow> 'w \<Rightarrow> (error + (string \<times> Service list) list) \<times> 'w" where
  "getServiceMap client w =
     (case GetNodes client w of
        (Inl err, w1) \<Rightarrow> (Inl (Errorf ''error scanning nodes'' err), w1)
      | (Inr nodes, w1) \<Rightarrow>
          (case scanNodes client nodes [] w1 of
             (servicesMap, w2) \<Rightarrow> (Inr servicesMap, w2)))"

text \<open>
  One poll cycle. \<open>cfgChan\<close> is the sequence of payloads sent on the channel so far, \<open>now\<close>
  the reading of the clock, and \<open>rangeOrder\<close> the order in which the runtime lets
  \<^verbatim>\<open>generateConfiguration\<close> visit the entries of the map it is given.
\<close>

definition updateConfiguration ::
  "((string \<times> Service list) list \<Rightarrow> (string \<times> Service list) list)
     \<Rightarrow> ('cfg, 'ifs, 'w) ProxmoxClient \<Rightarrow> Time \<Rightarrow> JSONPayload list \<Rightarrow> 'w
     \<Rightarrow> error option \<times> JSONPayload list \<times> 'w" where
  "updateConfiguration rangeOrder client now cfgChan w =
     (case getServiceMap client w of
        (Inl err, w1) \<Rightarrow> (Some (Errorf ''error getting service map'' err), cfgChan, w1)
      | (Inr servicesMap, w1) \<Rightarrow>
          (None,
           cfgChan @ [JSONPayload (generateConfiguration now (rangeOrder servicesMap))],
           w1))"

section \<open>Construction\<close>

record Config =
  PollInterval :: string
  ApiEndpoint :: string
  ApiTokenId :: string
  ApiToken :: string
  ApiLogging :: string
  ApiValidateSSL :: string

record ParserConfig =
  PCApiEndpoint :: string
  TokenId :: string
  Token :: string
  LogLevel :: string
  ValidateSSL :: bool

record ('cfg, 'ifs, 'w) Provider =
  name :: string
  pollInterval :: "64 word"
  client :: "('cfg, 'ifs, 'w) ProxmoxClient"
  cancel :: "unit option"

text \<open>\<^verbatim>\<open>time.Second\<close>: a \<^verbatim>\<open>time.Duration\<close> is a signed 64-bit count of nanoseconds.\<close>

definition Second :: "64 word" where
  "Second = 1000000000"

text \<open>\<^verbatim>\<open>validateConfig\<close>; \<open>None\<close> as the argument is the nil pointer, as the result no error.\<close>

definition validateConfig :: "Config option \<Rightarrow> error option" where
  "validateConfig config =
     (case config of
        None \<Rightarrow> Some (ErrorNew ''configuration cannot be nil'')
      | Some c \<Rightarrow>
          if PollInterval c = [] then Some (ErrorNew ''poll interval must be set'')
          else if ApiEndpoint c = [] then Some (ErrorNew ''API endpoint must be set'')
          else if ApiTokenId c = [] then Some (ErrorNew ''API token ID must be set'')
          else if ApiToken c = [] then Some (ErrorNew ''API token must be set'')
          else None)"

definition newParserConfig :: "string \<Rightarrow> string \<Rightarrow> string \<Rightarrow> error + ParserConfig" where
  "newParserConfig apiEndpoint tokenID token =
     (if apiEndpoint = [] \<or> tokenID = [] \<or> token = []
      then Inl (ErrorNew ''missing mandatory values: apiEndpoint, tokenID or token'')
      else Inr \<lparr>PCApiEndpoint = apiEndpoint, TokenId = tokenID, Token = token,
                LogLevel = ''info'', ValidateSSL = True\<rparr>)"

text \<open>
  \<^verbatim>\<open>internal.NewProxmoxClient\<close> is missing from the sources and is the parameter
  \<open>NewProxmoxClient\<close>.
\<close>

definition newClient ::
  "(string \<Rightarrow> string \<Rightarrow> string \<Rightarrow> bool \<Rightarrow> string \<Rightarrow> ('cfg, 'ifs, 'w) ProxmoxClient)
     \<Rightarrow> ParserConfig \<Rightarrow> ('cfg, 'ifs, 'w) ProxmoxClient" where
  "newClient NewProxmoxClient pc =
     NewProxmoxClient (PCApiEndpoint pc) (TokenId pc) (Token pc) (ValidateSSL pc) (LogLevel pc)"

definition logVersion :: "('cfg, 'ifs, 'w) ProxmoxClient \<Rightarrow> 'w \<Rightarrow> error option \<times> 'w" where
  "logVersion c w =
     (case GetVersion c w of
        (Inl err, w1) \<Rightarrow> (Some err, w1)
      | (Inr version, w1) \<Rightarrow> (None, w1))"

text \<open>
  \<^verbatim>\<open>New\<close>. \<^verbatim>\<open>time.ParseDuration\<close> of the standard library is the parameter
  \<open>ParseDuration\<close>. The comparison \<^verbatim>\<open>pi < 5*time.Second\<close> is one of signed integers.
  Reading a field of a nil \<open>config\<close> would panic; \<^verbatim>\<open>validateConfig\<close> has returned an error
  for it before.
\<close>

definition New ::
  "(string \<Rightarrow> error + 64 word)
     \<Rightarrow> (string \<Rightarrow> string \<Rightarrow> string \<Rightarrow> bool \<Rightarrow> string \<Rightarrow> ('cfg, 'ifs, 'w) ProxmoxClient)
     \<Rightarrow> Config option \<Rightarrow> string \<Rightarrow> 'w \<Rightarrow> (error + ('cfg, 'ifs, 'w) Provider) \<times> 'w" where
  "New ParseDuration NewProxmoxClient config nm w =
     (case validateConfig config of
        Some err \<Rightarrow> (Inl (Errorf ''invalid configuration'' err), w)
      | None \<Rightarrow>
          (case config of
             None \<Rightarrow> (Inl (ErrorNew ''nil pointer dereference''), w)
           | Some c \<Rightarrow>
               (case ParseDuration (PollInterval c) of
                  Inl err \<Rightarrow> (Inl (Errorf ''invalid poll interval'' err), w)
                | Inr pi \<Rightarrow>
                    if sint pi < sint (5 * Second)
                    then (Inl (ErrorDuration
                                 ''poll interval must be at least 5 seconds, got '' pi), w)
                    else
                      (case newParserConfig (ApiEndpoint c) (ApiTokenId c) (ApiToken c) of
                         Inl err \<Rightarrow> (Inl (Errorf ''invalid parser config'' err), w)
                       | Inr pc \<Rightarrow>
                           let pc1 = pc\<lparr>LogLevel := ApiLogging c\<rparr>;
                               pc2 = pc1\<lparr>ValidateSSL := (ApiValidateSSL c = ''true'')\<rparr>;
                               cl = newClient NewProxmoxClient pc2
                           in (case logVersion cl w of
                                 (Some err, w1) \<Rightarrow>
                                   (Inl (Errorf ''failed to get Proxmox version'' err), w1)
                               | (None, w1) \<Rightarrow>
                                   (Inr \<lparr>name = nm, pollInterval = pi, client = cl,
                                         cancel = None\<rparr>, w1))))))"

section \<open>Sample snapshots\<close>

text \<open>
  Services and a snapshot of two nodes on which the theorems below are evaluated: enabled
  services with addresses (one of them empty), with the fallback host and with a rule of
  their own; services whose enable directive is \<open>false\<close>, \<open>1\<close>, \<open>yes\<close> or missing; and
  an enabled service whose only address is the empty string; and an enabled service
  \<open>svcTwin\<close> that is put on two nodes at once.
\<close>

definition svcWeb :: Service where
  "svcWeb = \<lparr>ID = 100, Name = ''web'',
     Config = [''traefik.enable'' \<mapsto> ''true'', ''traefik.http.services.port'' \<mapsto> ''8080''],
     IPs = [\<lparr>Address = ''10.0.0.5''\<rparr>, \<lparr>Address = ''''\<rparr>, \<lparr>Address = ''10.0.0.6''\<rparr>]\<rparr>"

definition svcApi :: Service where
  "svcApi = \<lparr>ID = 101, Name = ''api'',
     Config = [''traefik.enable'' \<mapsto> ''true'', ''traefik.http.routers.rule'' \<mapsto> ''Host(`x.com`)''],
     IPs = []\<rparr>"

definition svcOff :: Service where
  "svcOff = \<lparr>ID = 102, Name = ''off'', Config = [''traefik.enable'' \<mapsto> ''false''],
     IPs = [\<lparr>Address = ''10.0.0.7''\<rparr>]\<rparr>"

definition svcOne :: Service where
  "svcOne = \<lparr>ID = 103, Name = ''one'', Config = [''traefik.enable'' \<mapsto> ''1''], IPs = []\<rparr>"

definition svcYes :: Service where
  "svcYes = \<lparr>ID = 104, Name = ''yes'', Config = [''traefik.enable'' \<mapsto> ''yes''], IPs = []\<rparr>"

definition svcBare :: Service where
  "svcBare = \<lparr>ID = 105, Name = ''bare'', Config = Map.empty, IPs = []\<rparr>"

definition svcBlank :: Service where
  "svcBlank = \<lparr>ID = 106, Name = ''blank'', Config = [''traefik.enable'' \<mapsto> ''true''],
     IPs = [\<lparr>Address = ''''\<rparr>]\<rparr>"

definition snapshot :: "(string \<times> Service list) list" where
  "snapshot = [(''pve1'', [svcWeb, svcOff, svcOne]), (''pve2'', [svcYes, svcApi, svcBare])]"

definition svcTwin :: Service where
  "svcTwin = \<lparr>ID = 1, Name = ''w'', Config = [''traefik.enable'' \<mapsto> ''true''], IPs = []\<rparr>"

section \<open>A sample cluster\<close>

text \<open>
  A client on which the theorems on discovery are evaluated. The state of the world counts
  the node listings made so far, and the first listing times out. Node \<open>pve1\<close> fails to
  list its virtual machines and \<open>pve3\<close> its containers. On \<open>pve2\<close>, the configuration of
  VM 101 and of container 200 cannot be read, the network interfaces of VM 102 and of
  container 201 cannot be read, and VM 103 and container 203 are not running.
  \<open>demoServices\<close> is what a scan of \<open>pve2\<close> is to return.
\<close>

definition demoVMs :: "VirtualMachine list" where
  "demoVMs = [\<lparr>VMID = 100, VMName = ''web'', Status = ''running''\<rparr>,
              \<lparr>VMID = 101, VMName = ''db'', Status = ''running''\<rparr>,
              \<lparr>VMID = 102, VMName = ''cache'', Status = ''running''\<rparr>,
              \<lparr>VMID = 103, VMName = ''old'', Status = ''stopped''\<rparr>]"

definition demoCTs :: "Container list" where
  "demoCTs = [\<lparr>CTID = 200, CTName = ''proxy'', CTStatus = ''running''\<rparr>,
              \<lparr>CTID = 201, CTName = ''queue'', CTStatus = ''running''\<rparr>,
              \<lparr>CTID = 202, CTName = ''mail'', CTStatus = ''running''\<rparr>,
              \<lparr>CTID = 203, CTName = ''tmp'', CTStatus = ''paused''\<rparr>]"

definition demoClient :: "((string \<times> string) list, string list, nat) ProxmoxClient" where
  "demoClient =
     \<lparr>GetVersion = (\<lambda>w. (Inr \<lparr>Release = ''8.2''\<rparr>, w)),
      GetNodes = (\<lambda>w. if w = 0 then (Inl (ErrorNew ''timeout''), Suc w)
                       else (Inr [\<lparr>Node = ''pve1''\<rparr>, \<lparr>Node = ''pve2''\<rparr>, \<lparr>Node = ''pve3''\<rparr>], Suc w)),
      GetVirtualMachines = (\<lambda>n w. if n = ''pve1'' then (Inl (ErrorNew ''node offline''), w)
                                   else if n = ''pve2'' then (Inr demoVMs, w) else (Inr [], w)),
      GetContainers = (\<lambda>n w. if n = ''pve3'' then (Inl (ErrorNew ''lxc unavailable''), w)
                              else if n = ''pve2'' then (Inr demoCTs, w) else (Inr [], w)),
      GetVMConfig = (\<lambda>n i w. if i = 101 then (Inl (ErrorNew ''config locked''), w)
                              else (Inr [(''traefik.enable'', ''true'')], w)),
      GetContainerConfig = (\<lambda>n i w. if i = 200 then (Inl (ErrorNew ''config locked''), w)
                                     else (Inr [(''traefik.enable'', ''true'')], w)),
      GetVMNetworkInterfaces = (\<lambda>n i w. if i = 102 \<or> i = 201 then (Inl (ErrorNew ''no guest agent''), w)
                                         else (Inr [''10.0.0.5''], w)),
      GetTraefikMap = map_of,
      GetIPs = map (\<lambda>a. \<lparr>Address = a\<rparr>)\<rparr>"

definition demoServices :: "Service list" where
  "demoServices =
     [\<lparr>ID = 100, Name = ''web'', Config = map_of [(''traefik.enable'', ''true'')],
        IPs = [\<lparr>Address = ''10.0.0.5''\<rparr>]\<rparr>,
      \<lparr>ID = 102, Name = ''cache'', Config = map_of [(''traefik.enable'', ''true'')], IPs = []\<rparr>,
      \<lparr>ID = 201, Name = ''queue'', Config = map_of [(''traefik.enable'', ''true'')], IPs = []\<rparr>,
      \<lparr>ID = 202, Name = ''mail'', Config = map_of [(''traefik.enable'', ''true'')],
        IPs = [\<lparr>Address = ''10.0.0.5''\<rparr>]\<rparr>]"

text \<open>A stand-in for \<^verbatim>\<open>time.ParseDuration\<close> on two inputs, and a plugin configuration.\<close>

definition demoParseDuration :: "string \<Rightarrow> error + 64 word" where
  "demoParseDuration s =
     (if s = ''1s'' then Inr 1000000000
      else if s = ''30s'' then Inr 30000000000
      else Inl (ErrorNew ''time: invalid duration''))"

definition demoConfig :: Config where
  "demoConfig = \<lparr>PollInterval = ''1s'', ApiEndpoint = ''https://proxmox.example.com'',
     ApiTokenId = ''root@pam!traefik'', ApiToken = ''your-api-token'',
     ApiLogging = ''info'', ApiValidateSSL = ''true''\<rparr>"

section \<open>Properties of the synthesizer\<close>

subsection \<open>Endpoints and the loop body\<close>

lemma addServers_eq:
  "addServers s ips acc =
     acc @ map (\<lambda>ip. \<lparr>URL = ''http://'' @ Address ip @ '':'' @ port s\<rparr>)
             (filter (\<lambda>ip. Address ip \<noteq> []) ips)"
  by (induction ips arbitrary: acc) simp_all

lemma lbServers_eq:
  "lbServers n s =
     (if IPs s \<noteq> []
      then map (\<lambda>ip. \<lparr>URL = ''http://'' @ Address ip @ '':'' @ port s\<rparr>)
             (filter (\<lambda>ip. Address ip \<noteq> []) (IPs s))
      else [\<lparr>URL = ''http://'' @ Name s @ ''.'' @ n @ '':'' @ port s\<rparr>])"
  by (simp add: lbServers_def addServers_eq)

lemma lbServers_nonempty_iff:
  "lbServers n s \<noteq> [] \<longleftrightarrow> IPs s = [] \<or> (\<exists>ip \<in> set (IPs s). Address ip \<noteq> [])"
  by (auto simp: lbServers_eq filter_empty_conv)

lemma processService_skip:
  "Config s ''traefik.enable'' \<noteq> Some ''true'' \<Longrightarrow> processService n s h = h"
  by (simp add: processService_def split: option.splits)

lemma processService_no_servers:
  "lbServers n s = [] \<Longrightarrow> processService n s h = h"
  by (simp add: processService_def split: option.splits)

lemma processService_emit:
  "Config s ''traefik.enable'' = Some ''true'' \<Longrightarrow> lbServers n s \<noteq> [] \<Longrightarrow>
   processService n s h =
     h\<lparr>Services := (Services h)(serviceName s \<mapsto>
          \<lparr>LoadBalancer = Some \<lparr>PassHostHeader = Some True, Servers = lbServers n s\<rparr>\<rparr>),
       Routers := (Routers h)(serviceName s \<mapsto>
          \<lparr>RouterService = serviceName s,
           Rule = (case Config s ''traefik.http.routers.rule'' of
                     Some customRule \<Rightarrow> customRule
                   | None \<Rightarrow> ''Host(`'' @ Name s @ ''`)''),
           Priority = 1\<rparr>)\<rparr>"
  by (simp add: processService_def Let_def)

lemma processService_cases:
  "processService n s h = h \<or>
   (Config s ''traefik.enable'' = Some ''true'' \<and> lbServers n s \<noteq> [] \<and>
    processService n s h =
     h\<lparr>Services := (Services h)(serviceName s \<mapsto>
          \<lparr>LoadBalancer = Some \<lparr>PassHostHeader = Some True, Servers = lbServers n s\<rparr>\<rparr>),
       Routers := (Routers h)(serviceName s \<mapsto>
          \<lparr>RouterService = serviceName s,
           Rule = (case Config s ''traefik.http.routers.rule'' of
                     Some customRule \<Rightarrow> customRule
                   | None \<Rightarrow> ''Host(`'' @ Name s @ ''`)''),
           Priority = 1\<rparr>)\<rparr>)"
  using processService_skip processService_no_servers processService_emit by blast

lemma servicesLoop_append:
  "servicesLoop n (xs @ ys) h = servicesLoop n ys (servicesLoop n xs h)"
  by (induction xs arbitrary: h) simp_all

lemma nodesLoop_append:
  "nodesLoop (xs @ ys) h = nodesLoop ys (nodesLoop xs h)"
  by (induction xs arbitrary: h) auto

lemma processService_other_key:
  "serviceName s \<noteq> k \<Longrightarrow>
   Services (processService n s h) k = Services h k \<and>
   Routers (processService n s h) k = Routers h k"
  using processService_cases [of n s h] by auto

lemma servicesLoop_other_key:
  "\<forall>s \<in> set ss. serviceName s \<noteq> k \<Longrightarrow>
   Services (servicesLoop n ss h) k = Services h k \<and>
   Routers (servicesLoop n ss h) k = Routers h k"
  by (induction ss arbitrary: h) (simp_all add: processService_other_key)

lemma nodesLoop_other_key:
  "\<forall>(n, ss) \<in> set sm. \<forall>s \<in> set ss. serviceName s \<noteq> k \<Longrightarrow>
   Services (nodesLoop sm h) k = Services h k \<and>
   Routers (nodesLoop sm h) k = Routers h k"
  by (induction sm arbitrary: h) (auto simp: servicesLoop_other_key)

lemma nodesLoop_last_writer:
  assumes gate: "Config s ''traefik.enable'' = Some ''true''"
    and srv: "lbServers n s \<noteq> []"
    and later: "\<forall>s' \<in> set ss2. serviceName s' \<noteq> serviceName s"
    and post: "\<forall>(n', ss') \<in> set post. \<forall>s' \<in> set ss'. serviceName s' \<noteq> serviceName s"
  shows "Services (nodesLoop (pre @ (n, ss1 @ s # ss2) # post) h) (serviceName s) =
           Some \<lparr>LoadBalancer = Some \<lparr>PassHostHeader = Some True, Servers = lbServers n s\<rparr>\<rparr>
       \<and> Routers (nodesLoop (pre @ (n, ss1 @ s # ss2) # post) h) (serviceName s) =
           Some \<lparr>RouterService = serviceName s,
                 Rule = (case Config s ''traefik.http.routers.rule'' of
                           Some customRule \<Rightarrow> customRule
                         | None \<Rightarrow> ''Host(`'' @ Name s @ ''`)''),
                 Priority = 1\<rparr>"
proof -
  define h1 where "h1 = servicesLoop n ss1 (nodesLoop pre h)"
  have eq: "nodesLoop (pre @ (n, ss1 @ s # ss2) # post) h =
        nodesLoop post (servicesLoop n ss2 (processService n s h1))"
    by (simp add: nodesLoop_append servicesLoop_append h1_def)
  show ?thesis
    unfolding eq
    using nodesLoop_other_key [OF post] servicesLoop_other_key [OF later]
    by (simp add: processService_emit [OF gate srv])
qed

lemma servicesLoop_Services_dom:
  "Services (servicesLoop n ss h) k \<noteq> None \<longleftrightarrow>
     Services h k \<noteq> None \<or>
     (\<exists>s \<in> set ss. Config s ''traefik.enable'' = Some ''true'' \<and> lbServers n s \<noteq> []
        \<and> serviceName s = k)"
proof (induction ss arbitrary: h)
  case Nil
  then show ?case by simp
next
  case (Cons s ss)
  show ?case
  proof (cases "Config s ''traefik.enable'' = Some ''true'' \<and> lbServers n s \<noteq> []")
    case True
    then show ?thesis
      using Cons.IH [of "processService n s h"] by (auto simp: processService_emit)
  next
    case False
    then have "processService n s h = h"
      using processService_skip processService_no_servers by blast
    then show ?thesis
      using Cons.IH [of h] False by auto
  qed
qed

lemma servicesLoop_Routers_dom:
  "Routers (servicesLoop n ss h) k \<noteq> None \<longleftrightarrow>
     Routers h k \<noteq> None \<or>
     (\<exists>s \<in> set ss. Config s ''traefik.enable'' = Some ''true'' \<and> lbServers n s \<noteq> []
        \<and> serviceName s = k)"
proof (induction ss arbitrary: h)
  case Nil
  then show ?case by simp
next
  case (Cons s ss)
  show ?case
  proof (cases "Config s ''traefik.enable'' = Some ''true'' \<and> lbServers n s \<noteq> []")
    case True
    then show ?thesis
      using Cons.IH [of "processService n s h"] by (auto simp: processService_emit)
  next
    case False
    then have "processService n s h = h"
      using processService_skip processService_no_servers by blast
    then show ?thesis
      using Cons.IH [of h] False by auto
  qed
qed

lemma nodesLoop_Services_dom:
  "Services (nodesLoop sm h) k \<noteq> None \<longleftrightarrow>
     Services h k \<noteq> None \<or>
     (\<exists>(n, ss) \<in> set sm. \<exists>s \<in> set ss.
        Config s ''traefik.enable'' = Some ''true'' \<and> lbServers n s \<noteq> [] \<and> serviceName s = k)"
proof (induction sm arbitrary: h)
  case Nil
  then show ?case by simp
next
  case (Cons e sm)
  obtain n ss where e: "e = (n, ss)" by (cases e)
  show ?case
    using Cons.IH [of "servicesLoop n ss h"] servicesLoop_Services_dom [of n ss h k]
    unfolding e by auto
qed

lemma nodesLoop_Routers_dom:
  "Routers (nodesLoop sm h) k \<noteq> None \<longleftrightarrow>
     Routers h k \<noteq> None \<or>
     (\<exists>(n, ss) \<in> set sm. \<exists>s \<in> set ss.
        Config s ''traefik.enable'' = Some ''true'' \<and> lbServers n s \<noteq> [] \<and> serviceName s = k)"
proof (induction sm arbitrary: h)
  case Nil
  then show ?case by simp
next
  case (Cons e sm)
  obtain n ss where e: "e = (n, ss)" by (cases e)
  show ?case
    using Cons.IH [of "servicesLoop n ss h"] servicesLoop_Routers_dom [of n ss h k]
    unfolding e by auto
qed

lemma processService_frame:
  "Middlewares (processService n s h) = Middlewares h \<and>
   ServersTransports (processService n s h) = ServersTransports h"
  using processService_cases [of n s h] by auto

lemma servicesLoop_frame:
  "Middlewares (servicesLoop n ss h) = Middlewares h \<and>
   ServersTransports (servicesLoop n ss h) = ServersTransports h"
  by (induction ss arbitrary: h) (simp_all add: processService_frame)

lemma nodesLoop_frame:
  "Middlewares (nodesLoop sm h) = Middlewares h \<and>
   ServersTransports (nodesLoop sm h) = ServersTransports h"
  by (induction sm arbitrary: h) (auto simp: servicesLoop_frame)

lemma servicesLoop_filter:
  "servicesLoop n (filter (\<lambda>s. Config s ''traefik.enable'' = Some ''true'') ss) h =
   servicesLoop n ss h"
  by (induction ss arbitrary: h) (simp_all add: processService_skip)

lemma nodesLoop_filter:
  "nodesLoop (map (\<lambda>(n, ss). (n, filter (\<lambda>s. Config s ''traefik.enable'' = Some ''true'') ss)) sm) h =
   nodesLoop sm h"
  by (induction sm arbitrary: h) (auto simp: servicesLoop_filter)

lemma processService_commute:
  assumes "Config s ''traefik.enable'' = Some ''true'' \<Longrightarrow>
           Config s' ''traefik.enable'' = Some ''true'' \<Longrightarrow> serviceName s \<noteq> serviceName s'"
  shows "processService n s (processService n' s' h) =
         processService n' s' (processService n s h)"
proof (cases "Config s ''traefik.enable'' = Some ''true'' \<and> lbServers n s \<noteq> []
            \<and> Config s' ''traefik.enable'' = Some ''true'' \<and> lbServers n' s' \<noteq> []")
  case True
  with assms have ne: "serviceName s \<noteq> serviceName s'" by simp
  from True ne show ?thesis
    by (simp add: processService_emit fun_upd_twist)
next
  case False
  then show ?thesis
    using processService_skip processService_no_servers by metis
qed

lemma servicesLoop_processService_commute:
  assumes "\<forall>s \<in> set ss. Config s ''traefik.enable'' = Some ''true'' \<longrightarrow>
           Config s' ''traefik.enable'' = Some ''true'' \<longrightarrow> serviceName s \<noteq> serviceName s'"
  shows "servicesLoop n ss (processService n' s' h) =
         processService n' s' (servicesLoop n ss h)"
  using assms
proof (induction ss arbitrary: h)
  case Nil
  then show ?case by simp
next
  case (Cons s ss)
  have "processService n s (processService n' s' h) =
        processService n' s' (processService n s h)"
    by (rule processService_commute) (use Cons.prems in simp)
  with Cons show ?case by simp
qed

lemma servicesLoop_commute:
  assumes "\<forall>s \<in> set ss. \<forall>s' \<in> set ss'. Config s ''traefik.enable'' = Some ''true'' \<longrightarrow>
           Config s' ''traefik.enable'' = Some ''true'' \<longrightarrow> serviceName s \<noteq> serviceName s'"
  shows "servicesLoop n ss (servicesLoop n' ss' h) =
         servicesLoop n' ss' (servicesLoop n ss h)"
  using assms
proof (induction ss' arbitrary: h)
  case Nil
  then show ?case by simp
next
  case (Cons s' ss')
  have "servicesLoop n ss (processService n' s' h) =
        processService n' s' (servicesLoop n ss h)"
    by (rule servicesLoop_processService_commute) (use Cons.prems in simp)
  with Cons show ?case by simp
qed

lemma nodesLoop_fold:
  "nodesLoop sm h = fold (\<lambda>(n, ss). servicesLoop n ss) sm h"
  by (induction sm arbitrary: h) auto

lemma nodesLoop_permute:
  assumes d1: "distinct (map fst sm1)" and d2: "distinct (map fst sm2)"
    and eq: "map_of sm1 = map_of sm2"
    and keys: "\<forall>(n1, ss1) \<in> set sm1. \<forall>(n2, ss2) \<in> set sm1. n1 \<noteq> n2 \<longrightarrow>
                 (\<forall>s1 \<in> set ss1. \<forall>s2 \<in> set ss2.
                    Config s1 ''traefik.enable'' = Some ''true'' \<longrightarrow>
                    Config s2 ''traefik.enable'' = Some ''true'' \<longrightarrow>
                    serviceName s1 \<noteq> serviceName s2)"
  shows "nodesLoop sm1 h = nodesLoop sm2 h"
proof -
  have "set sm1 = set sm2"
    using d1 d2 eq by (simp add: map_of_inject_set)
  moreover have "distinct sm1" "distinct sm2"
    using d1 d2 by (simp_all add: distinct_map)
  ultimately have m: "mset sm1 = mset sm2"
    by (simp add: set_eq_iff_mset_eq_distinct)
  have comm: "(case x of (n, ss) \<Rightarrow> servicesLoop n ss) ((case y of (n, ss) \<Rightarrow> servicesLoop n ss) z) =
              (case y of (n, ss) \<Rightarrow> servicesLoop n ss) ((case x of (n, ss) \<Rightarrow> servicesLoop n ss) z)"
    if x: "x \<in> set sm1" and y: "y \<in> set sm1" for x y z
  proof (cases "x = y")
    case True
    then show ?thesis by simp
  next
    case False
    obtain n1 ss1 where x': "x = (n1, ss1)" by (cases x)
    obtain n2 ss2 where y': "y = (n2, ss2)" by (cases y)
    from False d1 x y have "n1 \<noteq> n2"
      unfolding x' y' by (metis eq_key_imp_eq_value)
    with keys x y have "\<forall>s1 \<in> set ss1. \<forall>s2 \<in> set ss2.
        Config s1 ''traefik.enable'' = Some ''true'' \<longrightarrow>
        Config s2 ''traefik.enable'' = Some ''true'' \<longrightarrow> serviceName s1 \<noteq> serviceName s2"
      unfolding x' y' by blast
    then show ?thesis
      unfolding x' y' using servicesLoop_commute [of ss1 ss2 n1 n2 z] by simp
  qed
  show ?thesis
    unfolding nodesLoop_fold
    by (rule fold_permuted_eq [where P = "\<lambda>_. True", OF m]) (simp_all add: comm)
qed

subsection \<open>The key of a service determines its name and ID\<close>

text \<open>
  The decimal digits of a number hold no dash, so the last dash of a key is the one that
  \<^verbatim>\<open>Sprintf\<close> put between name and ID: two services have the same key exactly when they
  have the same name and the same ID.
\<close>

lemma digit_inject:
  "a < 10 \<Longrightarrow> b < 10 \<Longrightarrow> ''0123456789'' ! a = ''0123456789'' ! b \<Longrightarrow> a = b"
  by (simp add: nth_eq_iff_index_eq)

lemma decimal_not_Nil: "decimal n \<noteq> []"
  by (subst decimal.simps) simp

lemma decimal_no_dash: "CHR ''-'' \<notin> set (decimal n)"
proof (induction n rule: decimal.induct)
  case (1 n)
  have d: "CHR ''-'' \<noteq> ''0123456789'' ! k" if "k < 10" for k :: nat
  proof -
    have "''0123456789'' ! k \<in> set ''0123456789''"
      by (rule nth_mem) (use that in simp)
    then show ?thesis by auto
  qed
  show ?case
  proof (cases "n < 10")
    case True
    then show ?thesis by (subst decimal.simps) (simp add: d)
  next
    case False
    with 1 show ?thesis by (subst decimal.simps) (simp add: d)
  qed
qed

lemma decimal_length_one: "length (decimal n) = 1 \<longleftrightarrow> n < 10"
proof (cases "n < 10")
  case True
  then show ?thesis by (subst decimal.simps) simp
next
  case False
  have "length (decimal (n div 10)) > 0" using decimal_not_Nil by blast
  with False show ?thesis by (subst decimal.simps) simp
qed

lemma decimal_inject: "decimal n = decimal m \<Longrightarrow> n = m"
proof (induction n arbitrary: m rule: decimal.induct)
  case (1 n)
  show ?case
  proof (cases "n < 10")
    case True
    then have "length (decimal m) = 1"
      using "1.prems" decimal_length_one [of n] by simp
    then have m: "m < 10" using decimal_length_one [of m] by simp
    from "1.prems" True m have "''0123456789'' ! n = ''0123456789'' ! m"
      by (simp add: decimal.simps [of n] decimal.simps [of m])
    with True m show ?thesis by (rule digit_inject)
  next
    case False
    then have "length (decimal m) \<noteq> 1"
      using "1.prems" decimal_length_one [of n] by simp
    then have m: "\<not> m < 10" using decimal_length_one [of m] by simp
    from "1.prems" False m have eq: "decimal (n div 10) = decimal (m div 10)"
      and dg: "''0123456789'' ! (n mod 10) = ''0123456789'' ! (m mod 10)"
      by (simp_all add: decimal.simps [of n] decimal.simps [of m])
    from "1.IH" [OF False eq] have "n div 10 = m div 10" .
    moreover from dg have "n mod 10 = m mod 10"
      by (rule digit_inject [rotated 2]) simp_all
    ultimately show ?thesis
      by (metis div_mult_mod_eq)
  qed
qed

lemma takeWhile_until:
  assumes "c \<notin> set ys"
  shows "takeWhile (\<lambda>x. x \<noteq> c) (rev (xs @ c # ys)) = rev ys"
proof -
  have "takeWhile (\<lambda>x. x \<noteq> c) (rev ys @ c # rev xs) =
        rev ys @ takeWhile (\<lambda>x. x \<noteq> c) (c # rev xs)"
    by (rule takeWhile_append2) (use assms in auto)
  then show ?thesis by simp
qed

lemma split_at_last:
  assumes "xs @ c # ys = xs' @ c # ys'" and "c \<notin> set ys" and "c \<notin> set ys'"
  shows "xs = xs' \<and> ys = ys'"
proof -
  have "rev ys = rev ys'"
    using takeWhile_until [OF assms(2), of xs] takeWhile_until [OF assms(3), of xs'] assms(1)
    by simp
  with assms(1) show ?thesis by simp
qed

lemma serviceName_inject:
  "serviceName s = serviceName s' \<longleftrightarrow> Name s = Name s' \<and> ID s = ID s'"
proof
  assume "serviceName s = serviceName s'"
  then have "Name s @ CHR ''-'' # decimal (unat (ID s)) =
             Name s' @ CHR ''-'' # decimal (unat (ID s'))"
    by (simp add: serviceName_def)
  then have "Name s = Name s' \<and> decimal (unat (ID s)) = decimal (unat (ID s'))"
    by (rule split_at_last) (rule decimal_no_dash)+
  then show "Name s = Name s' \<and> ID s = ID s'"
    by (metis decimal_inject word_unat_eq_iff)
next
  assume "Name s = Name s' \<and> ID s = ID s'"
  then show "serviceName s = serviceName s'"
    by (simp add: serviceName_def)
qed

subsection \<open>The keys of the sample services\<close>

lemma serviceName_samples:
  "serviceName svcWeb = ''web-100''" "serviceName svcApi = ''api-101''"
  "serviceName svcOff = ''off-102''" "serviceName svcOne = ''one-103''"
  "serviceName svcYes = ''yes-104''" "serviceName svcBare = ''bare-105''"
  "serviceName svcBlank = ''blank-106''"
  by (simp_all add: serviceName_def decimal.simps svcWeb_def svcApi_def svcOff_def svcOne_def
      svcYes_def svcBare_def svcBlank_def)

section \<open>The claims on the synthesizer\<close>

text \<open>
  C1. A router or a backend service is emitted only for a service whose directive map has
  \<^verbatim>\<open>traefik.enable\<close> with the value \<open>true\<close> exactly. When every service of the snapshot
  that bears the key \<open>k\<close> lacks the directive or has another value for it, the configuration
  has neither a router nor a backend service under \<open>k\<close>; and dropping all such services from
  the snapshot leaves the whole configuration as it is.
\<close>

theorem generateConfiguration_enable_gate:
  assumes "HTTP (generateConfiguration date servicesMap) = Some http"
    and "\<forall>(nodeName, services) \<in> set servicesMap. \<forall>s \<in> set services.
           serviceName s = k \<longrightarrow> Config s ''traefik.enable'' \<noteq> Some ''true''"
  shows "Routers http k = None \<and> Services http k = None
     \<and> generateConfiguration date
         (map (\<lambda>(nodeName, services).
                 (nodeName, filter (\<lambda>s. Config s ''traefik.enable'' = Some ''true'') services))
            servicesMap) = generateConfiguration date servicesMap"
proof -
  let ?h0 = "\<lparr>Routers = Map.empty, Middlewares = Map.empty,
              Services = Map.empty, ServersTransports = Map.empty\<rparr>"
  from assms(1) have h: "http = nodesLoop servicesMap ?h0"
    by (simp add: generateConfiguration_def)
  have no: "\<not> (\<exists>(n, ss) \<in> set servicesMap. \<exists>s \<in> set ss.
        Config s ''traefik.enable'' = Some ''true'' \<and> lbServers n s \<noteq> [] \<and> serviceName s = k)"
    using assms(2) by blast
  have "Routers http k = None"
    using nodesLoop_Routers_dom [of servicesMap ?h0 k] no unfolding h by simp
  moreover have "Services http k = None"
    using nodesLoop_Services_dom [of servicesMap ?h0 k] no unfolding h by simp
  ultimately show ?thesis
    by (simp add: generateConfiguration_def nodesLoop_filter)
qed

text \<open>
  On the sample snapshot, the services with the values \<open>false\<close>, \<open>1\<close> and \<open>yes\<close> and the
  one without the directive have no entry, and the configuration is that of the two
  enabled services alone.
\<close>

theorem generateConfiguration_enable_gate_witness:
  "Routers (the (HTTP (generateConfiguration 0 snapshot))) ''off-102'' = None
   \<and> Services (the (HTTP (generateConfiguration 0 snapshot))) ''off-102'' = None
   \<and> Routers (the (HTTP (generateConfiguration 0 snapshot))) ''one-103'' = None
   \<and> Services (the (HTTP (generateConfiguration 0 snapshot))) ''yes-104'' = None
   \<and> Services (the (HTTP (generateConfiguration 0 snapshot))) ''bare-105'' = None
   \<and> generateConfiguration 0 [(''pve1'', [svcWeb]), (''pve2'', [svcApi])] =
       generateConfiguration 0 snapshot"
proof -
  have h: "HTTP (generateConfiguration 0 snapshot) = Some (the (HTTP (generateConfiguration 0 snapshot)))"
    by (simp add: generateConfiguration_def)
  have g: "\<forall>(nodeName, services) \<in> set snapshot. \<forall>s \<in> set services.
           serviceName s = k \<longrightarrow> Config s ''traefik.enable'' \<noteq> Some ''true''"
    if "k \<in> {''off-102'', ''one-103'', ''yes-104'', ''bare-105''}" for k
    using that by (auto simp: snapshot_def serviceName_samples) (simp_all add: svcOff_def svcOne_def svcYes_def svcBare_def)
  have f: "map (\<lambda>(nodeName, services).
                 (nodeName, filter (\<lambda>s. Config s ''traefik.enable'' = Some ''true'') services))
            snapshot = [(''pve1'', [svcWeb]), (''pve2'', [svcApi])]"
    by (simp add: snapshot_def svcWeb_def svcApi_def svcOff_def svcOne_def svcYes_def svcBare_def)
  show ?thesis
    using generateConfiguration_enable_gate [OF h g, of "''off-102''"]
      generateConfiguration_enable_gate [OF h g, of "''one-103''"]
      generateConfiguration_enable_gate [OF h g, of "''yes-104''"]
      generateConfiguration_enable_gate [OF h g, of "''bare-105''"]
    by (simp add: f)
qed

text \<open>
  C9. Whatever the snapshot, the TCP, UDP and TLS sections and the HTTP middlewares and
  servers transports are allocated and empty; only the HTTP routers and services can hold
  entries.
\<close>

theorem generateConfiguration_only_http:
  "\<exists>http. generateConfiguration date servicesMap =
      \<lparr>HTTP = Some http,
       TCP = Some \<lparr>TCPRouters = Map.empty, TCPServices = Map.empty\<rparr>,
       TLS = Some \<lparr>TLSStores = Map.empty, TLSOptions = Map.empty\<rparr>,
       UDP = Some \<lparr>UDPRouters = Map.empty, UDPServices = Map.empty\<rparr>\<rparr>
     \<and> Middlewares http = Map.empty \<and> ServersTransports http = Map.empty"
  by (simp add: generateConfiguration_def nodesLoop_frame)

text \<open>
  C2. Take an enabled service at any place of the visit, on node \<open>nodeName\<close>. Its endpoint
  list is: when the address list is not empty, one \<^verbatim>\<open>http://<address>:<port>\<close> for each
  address that is not the empty string, in order, and none for an empty one; when the
  address list is empty, the one fallback \<^verbatim>\<open>http://<name>.<nodeName>:<port>\<close>. The port is
  the value of \<^verbatim>\<open>traefik.http.services.port\<close> when the key is there, and \<open>80\<close> otherwise.
  That list is what the backend stored under the service's key holds, as long as no
  service visited later writes the same key.
\<close>

theorem generateConfiguration_endpoints:
  assumes "servicesMap = pre @ (nodeName, ss1 @ service # ss2) # post"
    and "Config service ''traefik.enable'' = Some ''true''"
    and "\<forall>s' \<in> set ss2. serviceName s' \<noteq> serviceName service"
    and "\<forall>(n', ss') \<in> set post. \<forall>s' \<in> set ss'. serviceName s' \<noteq> serviceName service"
    and "HTTP (generateConfiguration date servicesMap) = Some http"
  shows "lbServers nodeName service =
           (if IPs service \<noteq> []
            then map (\<lambda>ip. \<lparr>URL = ''http://'' @ Address ip @ '':'' @
                              (case Config service ''traefik.http.services.port'' of
                                 Some customPort \<Rightarrow> customPort | None \<Rightarrow> ''80'')\<rparr>)
                   (filter (\<lambda>ip. Address ip \<noteq> '''') (IPs service))
            else [\<lparr>URL = ''http://'' @ Name service @ ''.'' @ nodeName @ '':'' @
                         (case Config service ''traefik.http.services.port'' of
                            Some customPort \<Rightarrow> customPort | None \<Rightarrow> ''80'')\<rparr>])
       \<and> (lbServers nodeName service \<noteq> [] \<longrightarrow>
            Services http (serviceName service) =
              Some \<lparr>LoadBalancer =
                      Some \<lparr>PassHostHeader = Some True, Servers = lbServers nodeName service\<rparr>\<rparr>)"
proof -
  from assms(5) have h: "http = nodesLoop servicesMap
      \<lparr>Routers = Map.empty, Middlewares = Map.empty,
       Services = Map.empty, ServersTransports = Map.empty\<rparr>"
    by (simp add: generateConfiguration_def)
  show ?thesis
    unfolding h assms(1)
    using nodesLoop_last_writer [OF assms(2) _ assms(3) assms(4)]
    by (simp add: lbServers_eq port_def)
qed

text \<open>
  On the sample snapshot: \<open>web\<close> has two addresses and an empty one and the port
  \<open>8080\<close>; \<open>api\<close> has no address and no port directive.
\<close>

theorem generateConfiguration_endpoints_witness:
  "lbServers ''pve1'' svcWeb = [\<lparr>URL = ''http://10.0.0.5:8080''\<rparr>, \<lparr>URL = ''http://10.0.0.6:8080''\<rparr>]
   \<and> Services (the (HTTP (generateConfiguration 0 snapshot))) ''web-100'' =
       Some \<lparr>LoadBalancer = Some \<lparr>PassHostHeader = Some True,
               Servers = [\<lparr>URL = ''http://10.0.0.5:8080''\<rparr>, \<lparr>URL = ''http://10.0.0.6:8080''\<rparr>]\<rparr>\<rparr>
   \<and> lbServers ''pve2'' svcApi = [\<lparr>URL = ''http://api.pve2:80''\<rparr>]
   \<and> Services (the (HTTP (generateConfiguration 0 snapshot))) ''api-101'' =
       Some \<lparr>LoadBalancer = Some \<lparr>PassHostHeader = Some True,
               Servers = [\<lparr>URL = ''http://api.pve2:80''\<rparr>]\<rparr>\<rparr>"
proof -
  have h: "HTTP (generateConfiguration 0 snapshot) = Some (the (HTTP (generateConfiguration 0 snapshot)))"
    by (simp add: generateConfiguration_def)
  have a1: "snapshot = [] @ (''pve1'', [] @ svcWeb # [svcOff, svcOne]) # [(''pve2'', [svcYes, svcApi, svcBare])]"
    by (simp add: snapshot_def)
  have a2: "Config svcWeb ''traefik.enable'' = Some ''true''"
    by (simp add: svcWeb_def)
  have a3: "\<forall>s' \<in> set [svcOff, svcOne]. serviceName s' \<noteq> serviceName svcWeb"
    by (simp add: serviceName_samples)
  have a4: "\<forall>(n', ss') \<in> set [(''pve2'', [svcYes, svcApi, svcBare])]. \<forall>s' \<in> set ss'.
              serviceName s' \<noteq> serviceName svcWeb"
    by (simp add: serviceName_samples)
  have b1: "snapshot = [(''pve1'', [svcWeb, svcOff, svcOne])] @ (''pve2'', [svcYes] @ svcApi # [svcBare]) # []"
    by (simp add: snapshot_def)
  have b2: "Config svcApi ''traefik.enable'' = Some ''true''"
    by (simp add: svcApi_def)
  have b3: "\<forall>s' \<in> set [svcBare]. serviceName s' \<noteq> serviceName svcApi"
    by (simp add: serviceName_samples)
  have b4: "\<forall>(n', ss') \<in> set []. \<forall>s' \<in> set ss'. serviceName s' \<noteq> serviceName svcApi"
    by simp
  have w: "lbServers ''pve1'' svcWeb = [\<lparr>URL = ''http://10.0.0.5:8080''\<rparr>, \<lparr>URL = ''http://10.0.0.6:8080''\<rparr>]"
    using generateConfiguration_endpoints [OF a1 a2 a3 a4 h] by (simp add: svcWeb_def)
  have a: "lbServers ''pve2'' svcApi = [\<lparr>URL = ''http://api.pve2:80''\<rparr>]"
    using generateConfiguration_endpoints [OF b1 b2 b3 b4 h] by (simp add: svcApi_def)
  show ?thesis
    using generateConfiguration_endpoints [OF a1 a2 a3 a4 h]
      generateConfiguration_endpoints [OF b1 b2 b3 b4 h] w a
    by (simp add: serviceName_samples)
qed

text \<open>
  The claim C3 says that every service passing the enablement gate produces an endpoint and
  is emitted. An enabled service whose only address is the empty string has an address
  list that is not empty, so it gets no fallback, and its one address is skipped: nothing
  is emitted for it.
\<close>

theorem generateConfiguration_blank_address_counterexample:
  "Config svcBlank ''traefik.enable'' = Some ''true''
   \<and> Services (the (HTTP (generateConfiguration 0 [(''pve1'', [svcBlank])]))) (serviceName svcBlank) = None
   \<and> Routers (the (HTTP (generateConfiguration 0 [(''pve1'', [svcBlank])]))) (serviceName svcBlank) = None"
  by (simp add: generateConfiguration_def processService_no_servers lbServers_eq svcBlank_def)

text \<open>
  C3, amended. The configuration has a backend service under a key exactly when the
  snapshot has a service that passes the enablement gate, whose endpoint list is not empty
  and whose name and ID join to that key as \<^verbatim>\<open><name>-<id>\<close>; routers and backend services
  have the same keys. The endpoint list is not empty exactly when the service has no
  address at all or has one that is not the empty string.
\<close>

theorem generateConfiguration_emission:
  assumes "HTTP (generateConfiguration date servicesMap) = Some http"
  shows "(k \<in> dom (Services http) \<longleftrightarrow>
            (\<exists>(nodeName, services) \<in> set servicesMap. \<exists>s \<in> set services.
               Config s ''traefik.enable'' = Some ''true'' \<and> lbServers nodeName s \<noteq> []
               \<and> k = Name s @ ''-'' @ decimal (unat (ID s))))
       \<and> (k \<in> dom (Routers http) \<longleftrightarrow> k \<in> dom (Services http))
       \<and> (lbServers n s \<noteq> [] \<longleftrightarrow> IPs s = [] \<or> (\<exists>ip \<in> set (IPs s). Address ip \<noteq> ''''))"
proof -
  let ?h0 = "\<lparr>Routers = Map.empty, Middlewares = Map.empty,
              Services = Map.empty, ServersTransports = Map.empty\<rparr>"
  from assms have h: "http = nodesLoop servicesMap ?h0"
    by (simp add: generateConfiguration_def)
  have s: "k \<in> dom (Services http) \<longleftrightarrow>
            (\<exists>(nodeName, services) \<in> set servicesMap. \<exists>s \<in> set services.
               Config s ''traefik.enable'' = Some ''true'' \<and> lbServers nodeName s \<noteq> []
               \<and> k = Name s @ ''-'' @ decimal (unat (ID s)))"
    using nodesLoop_Services_dom [of servicesMap ?h0 k]
    unfolding h domIff serviceName_def by auto
  have r: "k \<in> dom (Routers http) \<longleftrightarrow>
            (\<exists>(nodeName, services) \<in> set servicesMap. \<exists>s \<in> set services.
               Config s ''traefik.enable'' = Some ''true'' \<and> lbServers nodeName s \<noteq> []
               \<and> k = Name s @ ''-'' @ decimal (unat (ID s)))"
    using nodesLoop_Routers_dom [of servicesMap ?h0 k]
    unfolding h domIff serviceName_def by auto
  show ?thesis
    using s r lbServers_nonempty_iff [of n s] by simp
qed

theorem generateConfiguration_emission_witness:
  "''web-100'' \<in> dom (Services (the (HTTP (generateConfiguration 0 snapshot))))
   \<and> ''web-100'' \<in> dom (Routers (the (HTTP (generateConfiguration 0 snapshot))))
   \<and> ''blank-106'' \<notin> dom (Services (the (HTTP (generateConfiguration 0 [(''pve1'', [svcBlank])]))))
   \<and> lbServers ''pve1'' svcBlank = []"
proof -
  have h: "HTTP (generateConfiguration 0 snapshot) = Some (the (HTTP (generateConfiguration 0 snapshot)))"
    by (simp add: generateConfiguration_def)
  have h': "HTTP (generateConfiguration 0 [(''pve1'', [svcBlank])]) =
      Some (the (HTTP (generateConfiguration 0 [(''pve1'', [svcBlank])])))"
    by (simp add: generateConfiguration_def)
  have e: "\<exists>(nodeName, services) \<in> set snapshot. \<exists>s \<in> set services.
               Config s ''traefik.enable'' = Some ''true'' \<and> lbServers nodeName s \<noteq> []
               \<and> ''web-100'' = Name s @ ''-'' @ decimal (unat (ID s))"
    using serviceName_samples(1)
    by (simp add: snapshot_def serviceName_def lbServers_eq) (simp add: svcWeb_def)
  have b: "\<not> (IPs svcBlank = [] \<or> (\<exists>ip \<in> set (IPs svcBlank). Address ip \<noteq> ''''))"
    by (simp add: svcBlank_def)
  have nb: "lbServers ''pve1'' svcBlank = []"
    using generateConfiguration_emission [OF h', of _ "''pve1''" svcBlank] b by simp
  have ne: "\<not> (\<exists>(nodeName, services) \<in> set [(''pve1'', [svcBlank])]. \<exists>s \<in> set services.
               Config s ''traefik.enable'' = Some ''true'' \<and> lbServers nodeName s \<noteq> []
               \<and> ''blank-106'' = Name s @ ''-'' @ decimal (unat (ID s)))"
    using nb by simp
  show ?thesis
    using generateConfiguration_emission [OF h, of "''web-100''"] e
      generateConfiguration_emission [OF h', of "''blank-106''"] ne nb
    by blast
qed

text \<open>
  C4. For an enabled service with an endpoint, the router stored under its key names that
  key as its service, has priority 1, and has as its rule the value of
  \<^verbatim>\<open>traefik.http.routers.rule\<close>, untouched, when the key is there, and
  \<^verbatim>\<open>Host(`<name>`)\<close> otherwise; again as long as no service visited later writes the
  same key.
\<close>

theorem generateConfiguration_rule:
  assumes "servicesMap = pre @ (nodeName, ss1 @ service # ss2) # post"
    and "Config service ''traefik.enable'' = Some ''true''"
    and "lbServers nodeName service \<noteq> []"
    and "\<forall>s' \<in> set ss2. serviceName s' \<noteq> serviceName service"
    and "\<forall>(n', ss') \<in> set post. \<forall>s' \<in> set ss'. serviceName s' \<noteq> serviceName service"
    and "HTTP (generateConfiguration date servicesMap) = Some http"
  shows "Routers http (serviceName service) =
           Some \<lparr>RouterService = serviceName service,
                 Rule = (case Config service ''traefik.http.routers.rule'' of
                           Some customRule \<Rightarrow> customRule
                         | None \<Rightarrow> ''Host(`'' @ Name service @ ''`)''),
                 Priority = 1\<rparr>"
proof -
  from assms(6) have h: "http = nodesLoop servicesMap
      \<lparr>Routers = Map.empty, Middlewares = Map.empty,
       Services = Map.empty, ServersTransports = Map.empty\<rparr>"
    by (simp add: generateConfiguration_def)
  show ?thesis
    unfolding h assms(1)
    using nodesLoop_last_writer [OF assms(2) assms(3) assms(4) assms(5)]
    by simp
qed

theorem generateConfiguration_rule_witness:
  "Routers (the (HTTP (generateConfiguration 0 snapshot))) ''web-100'' =
     Some \<lparr>RouterService = ''web-100'', Rule = ''Host(`web`)'', Priority = 1\<rparr>
   \<and> Routers (the (HTTP (generateConfiguration 0 snapshot))) ''api-101'' =
     Some \<lparr>RouterService = ''api-101'', Rule = ''Host(`x.com`)'', Priority = 1\<rparr>"
proof -
  have h: "HTTP (generateConfiguration 0 snapshot) = Some (the (HTTP (generateConfiguration 0 snapshot)))"
    by (simp add: generateConfiguration_def)
  have a1: "snapshot = [] @ (''pve1'', [] @ svcWeb # [svcOff, svcOne]) # [(''pve2'', [svcYes, svcApi, svcBare])]"
    by (simp add: snapshot_def)
  have a2: "Config svcWeb ''traefik.enable'' = Some ''true''"
    by (simp add: svcWeb_def)
  have a3: "\<forall>s' \<in> set [svcOff, svcOne]. serviceName s' \<noteq> serviceName svcWeb"
    by (simp add: serviceName_samples)
  have a4: "\<forall>(n', ss') \<in> set [(''pve2'', [svcYes, svcApi, svcBare])]. \<forall>s' \<in> set ss'.
              serviceName s' \<noteq> serviceName svcWeb"
    by (simp add: serviceName_samples)
  have a5: "lbServers ''pve1'' svcWeb \<noteq> []"
    by (simp add: lbServers_eq svcWeb_def)
  have b1: "snapshot = [(''pve1'', [svcWeb, svcOff, svcOne])] @ (''pve2'', [svcYes] @ svcApi # [svcBare]) # []"
    by (simp add: snapshot_def)
  have b2: "Config svcApi ''traefik.enable'' = Some ''true''"
    by (simp add: svcApi_def)
  have b3: "\<forall>s' \<in> set [svcBare]. serviceName s' \<noteq> serviceName svcApi"
    by (simp add: serviceName_samples)
  have b4: "\<forall>(n', ss') \<in> set []. \<forall>s' \<in> set ss'. serviceName s' \<noteq> serviceName svcApi"
    by simp
  have b5: "lbServers ''pve2'' svcApi \<noteq> []"
    by (simp add: lbServers_eq svcApi_def)
  show ?thesis
    using generateConfiguration_rule [OF a1 a2 a5 a3 a4 h]
      generateConfiguration_rule [OF b1 b2 b5 b3 b4 h]
    unfolding serviceName_samples
    by (simp add: svcWeb_def svcApi_def)
qed

text \<open>
  The claim C6 says that two runs on maps of equal content give the same configuration
  whatever the order of the visit. When two nodes both hold an enabled service of the same
  name and ID, the entry under the shared key is the one written last: here the fallback
  host of whichever node is visited second.
\<close>

theorem generateConfiguration_order_counterexample:
  "distinct (map fst [(''a'', [svcTwin]), (''b'', [svcTwin])])
   \<and> distinct (map fst [(''b'', [svcTwin]), (''a'', [svcTwin])])
   \<and> map_of [(''a'', [svcTwin]), (''b'', [svcTwin])] = map_of [(''b'', [svcTwin]), (''a'', [svcTwin])]
   \<and> generateConfiguration 0 [(''a'', [svcTwin]), (''b'', [svcTwin])]
       \<noteq> generateConfiguration 0 [(''b'', [svcTwin]), (''a'', [svcTwin])]"
proof -
  have m: "map_of [(''a'', [svcTwin]), (''b'', [svcTwin])] = map_of [(''b'', [svcTwin]), (''a'', [svcTwin])]"
    by (rule ext) simp
  have k: "serviceName svcTwin = ''w-1''"
    by (simp add: serviceName_def svcTwin_def decimal.simps)
  have g: "Config svcTwin ''traefik.enable'' = Some ''true''"
    by (simp add: svcTwin_def)
  have l: "lbServers n svcTwin = [\<lparr>URL = ''http://w.'' @ n @ '':80''\<rparr>]" for n
    by (simp add: lbServers_eq svcTwin_def port_def)
  have ab: "Services (the (HTTP (generateConfiguration 0 [(''a'', [svcTwin]), (''b'', [svcTwin])]))) ''w-1''
       = Some \<lparr>LoadBalancer = Some \<lparr>PassHostHeader = Some True, Servers = [\<lparr>URL = ''http://w.b:80''\<rparr>]\<rparr>\<rparr>"
    by (simp add: generateConfiguration_def processService_emit [OF g] l k)
  have ba: "Services (the (HTTP (generateConfiguration 0 [(''b'', [svcTwin]), (''a'', [svcTwin])]))) ''w-1''
       = Some \<lparr>LoadBalancer = Some \<lparr>PassHostHeader = Some True, Servers = [\<lparr>URL = ''http://w.a:80''\<rparr>]\<rparr>\<rparr>"
    by (simp add: generateConfiguration_def processService_emit [OF g] l k)
  have "generateConfiguration 0 [(''a'', [svcTwin]), (''b'', [svcTwin])]
       \<noteq> generateConfiguration 0 [(''b'', [svcTwin]), (''a'', [svcTwin])]"
  proof
    assume "generateConfiguration 0 [(''a'', [svcTwin]), (''b'', [svcTwin])]
       = generateConfiguration 0 [(''b'', [svcTwin]), (''a'', [svcTwin])]"
    with ab ba show False by simp
  qed
  with m show ?thesis by simp
qed

text \<open>
  C6, amended. Two runs on maps of equal content give the same configuration, whatever the
  two timestamps and the two orders of the visit, provided that no two services on
  different nodes that both pass the enablement gate have the same key.
\<close>

theorem generateConfiguration_deterministic:
  assumes "distinct (map fst sm1)" and "distinct (map fst sm2)"
    and "map_of sm1 = map_of sm2"
    and "\<forall>(n1, ss1) \<in> set sm1. \<forall>(n2, ss2) \<in> set sm1. n1 \<noteq> n2 \<longrightarrow>
           (\<forall>s1 \<in> set ss1. \<forall>s2 \<in> set ss2.
              Config s1 ''traefik.enable'' = Some ''true'' \<longrightarrow>
              Config s2 ''traefik.enable'' = Some ''true'' \<longrightarrow>
              serviceName s1 \<noteq> serviceName s2)"
  shows "generateConfiguration date1 sm1 = generateConfiguration date2 sm2"
  using nodesLoop_permute [OF assms] by (simp add: generateConfiguration_def)

theorem generateConfiguration_deterministic_witness:
  "generateConfiguration 0 snapshot =
   generateConfiguration 1 [(''pve2'', [svcYes, svcApi, svcBare]), (''pve1'', [svcWeb, svcOff, svcOne])]"
proof -
  have d1: "distinct (map fst snapshot)"
    by (simp add: snapshot_def)
  have d2: "distinct (map fst [(''pve2'', [svcYes, svcApi, svcBare]), (''pve1'', [svcWeb, svcOff, svcOne])])"
    by simp
  have m: "map_of snapshot =
      map_of [(''pve2'', [svcYes, svcApi, svcBare]), (''pve1'', [svcWeb, svcOff, svcOne])]"
    unfolding snapshot_def by (rule ext) simp
  have k: "\<forall>(n1, ss1) \<in> set snapshot. \<forall>(n2, ss2) \<in> set snapshot. n1 \<noteq> n2 \<longrightarrow>
           (\<forall>s1 \<in> set ss1. \<forall>s2 \<in> set ss2.
              Config s1 ''traefik.enable'' = Some ''true'' \<longrightarrow>
              Config s2 ''traefik.enable'' = Some ''true'' \<longrightarrow>
              serviceName s1 \<noteq> serviceName s2)"
    by (simp add: snapshot_def serviceName_samples)
  show ?thesis
    by (rule generateConfiguration_deterministic [OF d1 d2 m k])
qed

section \<open>Properties of discovery\<close>

subsection \<open>The loops on a list split in two\<close>

lemma scanVMs_append:
  "scanVMs c n (xs @ ys) acc w =
     (case scanVMs c n xs acc w of (acc1, w1) \<Rightarrow> scanVMs c n ys acc1 w1)"
  by (induction xs arbitrary: acc w) (auto simp: Let_def split: prod.splits sum.splits)

lemma scanContainers_append:
  "scanContainers c n (xs @ ys) acc w =
     (case scanContainers c n xs acc w of (acc1, w1) \<Rightarrow> scanContainers c n ys acc1 w1)"
  by (induction xs arbitrary: acc w) (auto simp: Let_def split: prod.splits sum.splits)

lemma scanNodes_append:
  "scanNodes c (xs @ ys) sm w =
     (case scanNodes c xs sm w of (sm1, w1) \<Rightarrow> scanNodes c ys sm1 w1)"
  by (induction xs arbitrary: sm w) (auto simp: Let_def split: prod.splits sum.splits)

subsection \<open>Workloads that are not running\<close>

lemma scanVMs_filter:
  "scanVMs c n (filter (\<lambda>vm. Status vm = ''running'') vms) acc w = scanVMs c n vms acc w"
  by (induction vms arbitrary: acc w) (auto simp: Let_def split: prod.splits sum.splits)

lemma scanContainers_filter:
  "scanContainers c n (filter (\<lambda>ct. CTStatus ct = ''running'') cts) acc w =
   scanContainers c n cts acc w"
  by (induction cts arbitrary: acc w) (auto simp: Let_def split: prod.splits sum.splits)

lemma getIPsOfService_listings:
  "getIPsOfService (c\<lparr>GetVirtualMachines := f, GetContainers := g\<rparr>) = getIPsOfService c"
  by (rule ext)+ (simp add: getIPsOfService_def split: prod.splits sum.splits)

lemma scanVMs_listings:
  "scanVMs (c\<lparr>GetVirtualMachines := f, GetContainers := g\<rparr>) n vms acc w = scanVMs c n vms acc w"
  by (induction vms arbitrary: acc w)
     (auto simp: Let_def getIPsOfService_listings split: prod.splits sum.splits)

lemma scanContainers_listings:
  "scanContainers (c\<lparr>GetVirtualMachines := f, GetContainers := g\<rparr>) n cts acc w =
   scanContainers c n cts acc w"
  by (induction cts arbitrary: acc w)
     (auto simp: Let_def getIPsOfService_listings split: prod.splits sum.splits)

lemma scanServices_running:
  "scanServices
     (c\<lparr>GetVirtualMachines := (\<lambda>n w. case GetVirtualMachines c n w of
             (r, w') \<Rightarrow> (map_sum id (filter (\<lambda>vm. Status vm = ''running'')) r, w')),
        GetContainers := (\<lambda>n w. case GetContainers c n w of
             (r, w') \<Rightarrow> (map_sum id (filter (\<lambda>ct. CTStatus ct = ''running'')) r, w'))\<rparr>) n w
   = scanServices c n w"
  by (simp add: scanServices_def scanVMs_listings scanContainers_listings
        scanVMs_filter scanContainers_filter split: prod.splits sum.splits)

lemma scanNodes_running:
  "scanNodes
     (c\<lparr>GetVirtualMachines := (\<lambda>n w. case GetVirtualMachines c n w of
             (r, w') \<Rightarrow> (map_sum id (filter (\<lambda>vm. Status vm = ''running'')) r, w')),
        GetContainers := (\<lambda>n w. case GetContainers c n w of
             (r, w') \<Rightarrow> (map_sum id (filter (\<lambda>ct. CTStatus ct = ''running'')) r, w'))\<rparr>) nodes sm w
   = scanNodes c nodes sm w"
  by (induction nodes arbitrary: sm w)
     (simp_all add: scanServices_running split: prod.splits sum.splits)

subsection \<open>The scan of the sample cluster\<close>

lemma demo_scanVMs:
  "scanVMs demoClient ''pve2'' demoVMs [] w = (take 2 demoServices, w)"
  by (simp add: demoVMs_def demoClient_def demoServices_def getIPsOfService_def NewService_def)

lemma demo_scanContainers:
  "scanContainers demoClient ''pve2'' demoCTs (take 2 demoServices) w = (demoServices, w)"
  by (simp add: demoCTs_def demoClient_def demoServices_def getIPsOfService_def NewService_def)

lemma demo_scanServices:
  "scanServices demoClient ''pve1'' w = (Inl (Errorf ''error scanning VMs on node pve1'' (ErrorNew ''node offline'')), w)"
  "scanServices demoClient ''pve2'' w = (Inr demoServices, w)"
  "scanServices demoClient ''pve3'' w = (Inl (Errorf ''error scanning containers on node pve3'' (ErrorNew ''lxc unavailable'')), w)"
    apply (simp add: scanServices_def demoClient_def)
   apply (simp add: scanServices_def demo_scanVMs demo_scanContainers)
   apply (simp add: demoClient_def demo_scanVMs [unfolded demoClient_def] demo_scanContainers [unfolded demoClient_def])
  apply (simp add: scanServices_def demoClient_def)
  done

subsection \<open>The least poll interval\<close>

lemma five_seconds: "sint (5 * Second) = 5000000000"
  by (simp add: Second_def)

section \<open>The claims on discovery and construction\<close>

text \<open>
  C5. A workload whose status is not the string \<open>running\<close> exactly has no part in a scan:
  each of the two loops gives the same services, and leaves the world in the same state,
  as on the listing with all such workloads removed. So does the scan of a node, and so
  does the whole poll cycle with the configuration it publishes, when the client's two
  listings are cut down to the running workloads.
\<close>

theorem scanServices_running_only:
  "scanVMs c n vms services w =
     scanVMs c n (filter (\<lambda>vm. Status vm = ''running'') vms) services w
   \<and> scanContainers c n cts services w =
     scanContainers c n (filter (\<lambda>ct. CTStatus ct = ''running'') cts) services w
   \<and> (let c' = c\<lparr>GetVirtualMachines := (\<lambda>n w. case GetVirtualMachines c n w of
                      (r, w') \<Rightarrow> (map_sum id (filter (\<lambda>vm. Status vm = ''running'')) r, w')),
                    GetContainers := (\<lambda>n w. case GetContainers c n w of
                      (r, w') \<Rightarrow> (map_sum id (filter (\<lambda>ct. CTStatus ct = ''running'')) r, w'))\<rparr>
       in scanServices c' n w = scanServices c n w
        \<and> updateConfiguration rangeOrder c' now cfgChan w =
          updateConfiguration rangeOrder c now cfgChan w)"
  by (simp add: Let_def scanVMs_filter scanContainers_filter scanServices_running
      updateConfiguration_def getServiceMap_def scanNodes_running split: prod.splits sum.splits)

text \<open>
  C7. When the listing of the nodes fails, the poll cycle returns an error and the channel
  is as it was. When the listing succeeds, the cycle returns no error and sends exactly one
  configuration, that of the map the loop over the nodes has built, whatever the scans of
  the single nodes did. In that loop a node whose scan fails leaves the map as it was
  before, and the loop goes on with the nodes after it. The scan of a node fails when the
  listing of its virtual machines fails, and when the listing of its containers fails.
\<close>

theorem updateConfiguration_failures:
  "(GetNodes c w = (Inl e, w1) \<longrightarrow>
      updateConfiguration rangeOrder c now cfgChan w =
        (Some (Errorf ''error getting service map'' (Errorf ''error scanning nodes'' e)),
         cfgChan, w1))
   \<and> (GetNodes c w = (Inr nodes, w1) \<longrightarrow>
      updateConfiguration rangeOrder c now cfgChan w =
        (None,
         cfgChan @ [JSONPayload (generateConfiguration now
                      (rangeOrder (fst (scanNodes c nodes [] w1))))],
         snd (scanNodes c nodes [] w1)))
   \<and> (scanNodes c pre sm wa = (sm', wb) \<longrightarrow> scanServices c (Node nd) wb = (Inl e', wc) \<longrightarrow>
      scanNodes c (pre @ nd # post) sm wa = scanNodes c post sm' wc)
   \<and> (GetVirtualMachines c n wv = (Inl ev, wv1) \<longrightarrow>
      scanServices c n wv = (Inl (Errorf (''error scanning VMs on node '' @ n) ev), wv1))
   \<and> (GetVirtualMachines c n wv = (Inr vms, wv1) \<longrightarrow>
      GetContainers c n (snd (scanVMs c n vms [] wv1)) = (Inl ec, wv2) \<longrightarrow>
      scanServices c n wv = (Inl (Errorf (''error scanning containers on node '' @ n) ec), wv2))"
  by (simp add: updateConfiguration_def getServiceMap_def scanNodes_append scanServices_def
      split: prod.splits)

text \<open>
  On the sample cluster: the first cycle meets the timeout and sends nothing; the second
  skips \<open>pve1\<close> and \<open>pve3\<close> and sends the configuration of \<open>pve2\<close> alone.
\<close>

theorem updateConfiguration_failures_witness:
  "updateConfiguration id demoClient 0 [] 0 =
     (Some (Errorf ''error getting service map''
              (Errorf ''error scanning nodes'' (ErrorNew ''timeout''))), [], 1)
   \<and> updateConfiguration id demoClient 0 [] 1 =
     (None, [JSONPayload (generateConfiguration 0 [(''pve2'', demoServices)])], 2)
   \<and> scanNodes demoClient [\<lparr>Node = ''pve1''\<rparr>, \<lparr>Node = ''pve2''\<rparr>, \<lparr>Node = ''pve3''\<rparr>] [] 2 =
     scanNodes demoClient [\<lparr>Node = ''pve2''\<rparr>, \<lparr>Node = ''pve3''\<rparr>] [] 2
   \<and> scanNodes demoClient [\<lparr>Node = ''pve2''\<rparr>, \<lparr>Node = ''pve3''\<rparr>] [] 2 =
     ([(''pve2'', demoServices)], 2)"
proof -
  have n0: "GetNodes demoClient 0 = (Inl (ErrorNew ''timeout''), 1)"
    by (simp add: demoClient_def)
  have n1: "GetNodes demoClient 1 =
      (Inr [\<lparr>Node = ''pve1''\<rparr>, \<lparr>Node = ''pve2''\<rparr>, \<lparr>Node = ''pve3''\<rparr>], 2)"
    by (simp add: demoClient_def)
  have p: "scanNodes demoClient [] [] 2 = ([], 2)"
    by simp
  have f1: "scanServices demoClient (Node \<lparr>Node = ''pve1''\<rparr>) 2 =
      (Inl (Errorf ''error scanning VMs on node pve1'' (ErrorNew ''node offline'')), 2)"
    by (simp add: demo_scanServices)
  have v1: "GetVirtualMachines demoClient ''pve1'' 2 = (Inl (ErrorNew ''node offline''), 2)"
    by (simp add: demoClient_def)
  have v3: "GetVirtualMachines demoClient ''pve3'' 2 = (Inr [], 2)"
    by (simp add: demoClient_def)
  have c3: "GetContainers demoClient ''pve3'' (snd (scanVMs demoClient ''pve3'' [] [] 2)) =
      (Inl (ErrorNew ''lxc unavailable''), 2)"
    by (simp add: demoClient_def)
  have f3: "scanServices demoClient ''pve3'' 2 =
      (Inl (Errorf ''error scanning containers on node pve3'' (ErrorNew ''lxc unavailable'')), 2)"
    using updateConfiguration_failures [where c = demoClient and n = "''pve3''" and wv = 2]
      v3 c3 by simp
  have e1: "scanServices demoClient ''pve1'' 2 =
      (Inl (Errorf ''error scanning VMs on node pve1'' (ErrorNew ''node offline'')), 2)"
    using updateConfiguration_failures [where c = demoClient and n = "''pve1''" and wv = 2]
      v1 by simp
  have rest: "scanNodes demoClient [\<lparr>Node = ''pve2''\<rparr>, \<lparr>Node = ''pve3''\<rparr>] [] 2 =
     ([(''pve2'', demoServices)], 2)"
    using f3 by (simp add: demo_scanServices)
  have skip: "scanNodes demoClient ([] @ \<lparr>Node = ''pve1''\<rparr> # [\<lparr>Node = ''pve2''\<rparr>, \<lparr>Node = ''pve3''\<rparr>]) [] 2 =
     scanNodes demoClient [\<lparr>Node = ''pve2''\<rparr>, \<lparr>Node = ''pve3''\<rparr>] [] 2"
    using updateConfiguration_failures [where c = demoClient and pre = "[]" and sm = "[]"
        and wa = 2 and nd = "\<lparr>Node = ''pve1''\<rparr>"
        and post = "[\<lparr>Node = ''pve2''\<rparr>, \<lparr>Node = ''pve3''\<rparr>]"] p f1
    by blast
  have a: "updateConfiguration id demoClient 0 [] 0 =
     (Some (Errorf ''error getting service map''
              (Errorf ''error scanning nodes'' (ErrorNew ''timeout''))), [], 1)"
    using updateConfiguration_failures [where c = demoClient and w = 0 and rangeOrder = id
        and now = 0 and cfgChan = "[]"] n0 by blast
  have b: "updateConfiguration id demoClient 0 [] 1 =
     (None, [JSONPayload (generateConfiguration 0 (id (fst (scanNodes demoClient
        [\<lparr>Node = ''pve1''\<rparr>, \<lparr>Node = ''pve2''\<rparr>, \<lparr>Node = ''pve3''\<rparr>] [] 2))))],
      snd (scanNodes demoClient [\<lparr>Node = ''pve1''\<rparr>, \<lparr>Node = ''pve2''\<rparr>, \<lparr>Node = ''pve3''\<rparr>] [] 2))"
    using updateConfiguration_failures [where c = demoClient and w = 1 and rangeOrder = id
        and now = 0 and cfgChan = "[]"] n1
    by simp
  from skip have skip': "scanNodes demoClient [\<lparr>Node = ''pve1''\<rparr>, \<lparr>Node = ''pve2''\<rparr>, \<lparr>Node = ''pve3''\<rparr>] [] 2 =
     scanNodes demoClient [\<lparr>Node = ''pve2''\<rparr>, \<lparr>Node = ''pve3''\<rparr>] [] 2"
    by simp
  show ?thesis
    unfolding a b skip' rest by simp
qed

text \<open>
  The claim C8 says that a workload is skipped when its configuration or its network
  interfaces cannot be read. On the sample cluster the interfaces of the running VM 102
  cannot be read, and the scan of its node still returns a service for it, with no
  address.
\<close>

theorem scanServices_interfaces_failure_counterexample:
  "GetVMNetworkInterfaces demoClient ''pve2'' 102 0 = (Inl (ErrorNew ''no guest agent''), 0)
   \<and> GetVirtualMachines demoClient ''pve2'' 0 = (Inr demoVMs, 0)
   \<and> demoVMs ! 2 = \<lparr>VMID = 102, VMName = ''cache'', Status = ''running''\<rparr>
   \<and> scanServices demoClient ''pve2'' 0 = (Inr demoServices, 0)
   \<and> demoServices ! 1 =
       \<lparr>ID = 102, Name = ''cache'', Config = map_of [(''traefik.enable'', ''true'')], IPs = []\<rparr>"
  by (simp add: demo_scanServices) (simp add: demoClient_def demoVMs_def demoServices_def)

text \<open>
  C8, amended. When the configuration of a running workload cannot be read, that workload
  adds no service, and the loop goes on with the workloads after it. When its
  configuration is read and its network interfaces cannot be, the service that
  \<^verbatim>\<open>NewService\<close> built is added as it is, and the loop goes on. This holds for virtual
  machines and for containers. The scan of the node succeeds as soon as its two listings
  do, whatever happened to single workloads.
\<close>

theorem scanServices_workload_failures:
  "(scanVMs c n pre acc w = (acc', w') \<longrightarrow> Status vm = ''running'' \<longrightarrow>
      GetVMConfig c n (VMID vm) w' = (Inl e, w'') \<longrightarrow>
      scanVMs c n (pre @ vm # post) acc w = scanVMs c n post acc' w'')
   \<and> (scanVMs c n pre acc w = (acc', w') \<longrightarrow> Status vm = ''running'' \<longrightarrow>
      GetVMConfig c n (VMID vm) w' = (Inr config, w'') \<longrightarrow>
      GetVMNetworkInterfaces c n (VMID vm) w'' = (Inl e, w''') \<longrightarrow>
      scanVMs c n (pre @ vm # post) acc w =
        scanVMs c n post
          (acc' @ [NewService (VMID vm) (VMName vm) (GetTraefikMap c config)]) w''')
   \<and> (scanContainers c n cpre acc w = (acc', w') \<longrightarrow> CTStatus ct = ''running'' \<longrightarrow>
      GetContainerConfig c n (CTID ct) w' = (Inl e, w'') \<longrightarrow>
      scanContainers c n (cpre @ ct # cpost) acc w = scanContainers c n cpost acc' w'')
   \<and> (scanContainers c n cpre acc w = (acc', w') \<longrightarrow> CTStatus ct = ''running'' \<longrightarrow>
      GetContainerConfig c n (CTID ct) w' = (Inr config, w'') \<longrightarrow>
      GetVMNetworkInterfaces c n (CTID ct) w'' = (Inl e, w''') \<longrightarrow>
      scanContainers c n (cpre @ ct # cpost) acc w =
        scanContainers c n cpost
          (acc' @ [NewService (CTID ct) (CTName ct) (GetTraefikMap c config)]) w''')
   \<and> (GetVirtualMachines c n w = (Inr vms, wv) \<longrightarrow>
      GetContainers c n (snd (scanVMs c n vms [] wv)) = (Inr cts, wc) \<longrightarrow>
      scanServices c n w =
        (Inr (fst (scanContainers c n cts (fst (scanVMs c n vms [] wv)) wc)),
         snd (scanContainers c n cts (fst (scanVMs c n vms [] wv)) wc)))"
  by (simp add: scanVMs_append scanContainers_append scanServices_def getIPsOfService_def
      split: prod.splits)

theorem scanServices_workload_failures_witness:
  "scanVMs demoClient ''pve2'' demoVMs [] 0 =
     scanVMs demoClient ''pve2'' (drop 2 demoVMs) (take 1 demoServices) 0
   \<and> scanVMs demoClient ''pve2'' demoVMs [] 0 =
     scanVMs demoClient ''pve2'' (drop 3 demoVMs) (take 2 demoServices) 0
   \<and> scanContainers demoClient ''pve2'' demoCTs (take 2 demoServices) 0 =
     scanContainers demoClient ''pve2'' (drop 1 demoCTs) (take 2 demoServices) 0
   \<and> scanContainers demoClient ''pve2'' demoCTs (take 2 demoServices) 0 =
     scanContainers demoClient ''pve2'' (drop 2 demoCTs) (take 3 demoServices) 0
   \<and> scanServices demoClient ''pve2'' 0 = (Inr demoServices, 0)"
proof -
  let ?on = "[(''traefik.enable'', ''true'')]"
  have vm_pre1: "scanVMs demoClient ''pve2'' (take 1 demoVMs) [] 0 = (take 1 demoServices, 0)"
    by (simp add: demoVMs_def demoClient_def demoServices_def getIPsOfService_def NewService_def)
  have vm_pre2: "scanVMs demoClient ''pve2'' (take 2 demoVMs) [] 0 = (take 1 demoServices, 0)"
    by (simp add: demoVMs_def demoClient_def demoServices_def getIPsOfService_def NewService_def)
  have ct_pre0: "scanContainers demoClient ''pve2'' [] (take 2 demoServices) 0 = (take 2 demoServices, 0)"
    by simp
  have ct_pre1: "scanContainers demoClient ''pve2'' (take 1 demoCTs) (take 2 demoServices) 0 =
      (take 2 demoServices, 0)"
    by (simp add: demoCTs_def demoClient_def)
  have r1: "Status (demoVMs ! 1) = ''running''" and r2: "Status (demoVMs ! 2) = ''running''"
    and r3: "CTStatus (demoCTs ! 0) = ''running''" and r4: "CTStatus (demoCTs ! 1) = ''running''"
    by (simp_all add: demoVMs_def demoCTs_def)
  have g1: "GetVMConfig demoClient ''pve2'' (VMID (demoVMs ! 1)) 0 = (Inl (ErrorNew ''config locked''), 0)"
    by (simp add: demoVMs_def demoClient_def)
  have g2: "GetVMConfig demoClient ''pve2'' (VMID (demoVMs ! 2)) 0 = (Inr ?on, 0)"
    by (simp add: demoVMs_def demoClient_def)
  have i2: "GetVMNetworkInterfaces demoClient ''pve2'' (VMID (demoVMs ! 2)) 0 =
      (Inl (ErrorNew ''no guest agent''), 0)"
    by (simp add: demoVMs_def demoClient_def)
  have g3: "GetContainerConfig demoClient ''pve2'' (CTID (demoCTs ! 0)) 0 =
      (Inl (ErrorNew ''config locked''), 0)"
    by (simp add: demoCTs_def demoClient_def)
  have g4: "GetContainerConfig demoClient ''pve2'' (CTID (demoCTs ! 1)) 0 = (Inr ?on, 0)"
    by (simp add: demoCTs_def demoClient_def)
  have i4: "GetVMNetworkInterfaces demoClient ''pve2'' (CTID (demoCTs ! 1)) 0 =
      (Inl (ErrorNew ''no guest agent''), 0)"
    by (simp add: demoCTs_def demoClient_def)
  have lv: "GetVirtualMachines demoClient ''pve2'' 0 = (Inr demoVMs, 0)"
    by (simp add: demoClient_def)
  have lc: "GetContainers demoClient ''pve2'' (snd (scanVMs demoClient ''pve2'' demoVMs [] 0)) =
      (Inr demoCTs, 0)"
    by (simp add: demo_scanVMs) (simp add: demoClient_def)
  have split_vm1: "demoVMs = take 1 demoVMs @ demoVMs ! 1 # drop 2 demoVMs"
    and split_vm2: "demoVMs = take 2 demoVMs @ demoVMs ! 2 # drop 3 demoVMs"
    by (simp_all add: demoVMs_def)
  have split_ct0: "demoCTs = [] @ demoCTs ! 0 # drop 1 demoCTs"
    and split_ct1: "demoCTs = take 1 demoCTs @ demoCTs ! 1 # drop 2 demoCTs"
    by (simp_all add: demoCTs_def)
  have s1: "scanVMs demoClient ''pve2'' (take 1 demoVMs @ demoVMs ! 1 # drop 2 demoVMs) [] 0 =
      scanVMs demoClient ''pve2'' (drop 2 demoVMs) (take 1 demoServices) 0"
    using scanServices_workload_failures [where c = demoClient and n = "''pve2''"
        and pre = "take 1 demoVMs" and acc = "[]" and w = 0 and vm = "demoVMs ! 1"
        and post = "drop 2 demoVMs"] vm_pre1 r1 g1
    by blast
  have s2: "scanVMs demoClient ''pve2'' (take 2 demoVMs @ demoVMs ! 2 # drop 3 demoVMs) [] 0 =
      scanVMs demoClient ''pve2'' (drop 3 demoVMs)
        (take 1 demoServices @
           [NewService (VMID (demoVMs ! 2)) (VMName (demoVMs ! 2)) (GetTraefikMap demoClient ?on)]) 0"
    using scanServices_workload_failures [where c = demoClient and n = "''pve2''"
        and pre = "take 2 demoVMs" and acc = "[]" and w = 0 and vm = "demoVMs ! 2"
        and post = "drop 3 demoVMs"] vm_pre2 r2 g2 i2
    by blast
  have s3: "scanContainers demoClient ''pve2'' ([] @ demoCTs ! 0 # drop 1 demoCTs) (take 2 demoServices) 0 =
      scanContainers demoClient ''pve2'' (drop 1 demoCTs) (take 2 demoServices) 0"
    using scanServices_workload_failures [where c = demoClient and n = "''pve2''"
        and cpre = "[]" and acc = "take 2 demoServices" and w = 0 and ct = "demoCTs ! 0"
        and cpost = "drop 1 demoCTs"] ct_pre0 r3 g3
    by blast
  have s4: "scanContainers demoClient ''pve2'' (take 1 demoCTs @ demoCTs ! 1 # drop 2 demoCTs)
        (take 2 demoServices) 0 =
      scanContainers demoClient ''pve2'' (drop 2 demoCTs)
        (take 2 demoServices @
           [NewService (CTID (demoCTs ! 1)) (CTName (demoCTs ! 1)) (GetTraefikMap demoClient ?on)]) 0"
    using scanServices_workload_failures [where c = demoClient and n = "''pve2''"
        and cpre = "take 1 demoCTs" and acc = "take 2 demoServices" and w = 0
        and ct = "demoCTs ! 1" and cpost = "drop 2 demoCTs"] ct_pre1 r4 g4 i4
    by blast
  have s5: "scanServices demoClient ''pve2'' 0 =
      (Inr (fst (scanContainers demoClient ''pve2'' demoCTs
                   (fst (scanVMs demoClient ''pve2'' demoVMs [] 0)) 0)),
       snd (scanContainers demoClient ''pve2'' demoCTs
              (fst (scanVMs demoClient ''pve2'' demoVMs [] 0)) 0))"
    using scanServices_workload_failures [where c = demoClient and n = "''pve2''" and w = 0] lv lc
    by blast
  have k2: "take 1 demoServices @
      [NewService (VMID (demoVMs ! 2)) (VMName (demoVMs ! 2)) (GetTraefikMap demoClient ?on)] =
      take 2 demoServices"
    by (simp add: demoServices_def demoVMs_def demoClient_def NewService_def)
  have k4: "take 2 demoServices @
      [NewService (CTID (demoCTs ! 1)) (CTName (demoCTs ! 1)) (GetTraefikMap demoClient ?on)] =
      take 3 demoServices"
    by (simp add: demoServices_def demoCTs_def demoClient_def NewService_def)
  have c1: "scanVMs demoClient ''pve2'' demoVMs [] 0 =
      scanVMs demoClient ''pve2'' (drop 2 demoVMs) (take 1 demoServices) 0"
    using s1 unfolding split_vm1 [symmetric] .
  have c2: "scanVMs demoClient ''pve2'' demoVMs [] 0 =
      scanVMs demoClient ''pve2'' (drop 3 demoVMs) (take 2 demoServices) 0"
    using s2 unfolding split_vm2 [symmetric] k2 .
  have c3: "scanContainers demoClient ''pve2'' demoCTs (take 2 demoServices) 0 =
      scanContainers demoClient ''pve2'' (drop 1 demoCTs) (take 2 demoServices) 0"
    using s3 unfolding split_ct0 [symmetric] .
  have c4: "scanContainers demoClient ''pve2'' demoCTs (take 2 demoServices) 0 =
      scanContainers demoClient ''pve2'' (drop 2 demoCTs) (take 3 demoServices) 0"
    using s4 unfolding split_ct1 [symmetric] k4 .
  have c5: "scanServices demoClient ''pve2'' 0 = (Inr demoServices, 0)"
    using s5 by (simp add: demo_scanVMs demo_scanContainers)
  show ?thesis
    by (intro conjI c1 c2 c3 c4 c5)
qed

text \<open>
  C10. When the poll interval of a configuration parses to a duration below five seconds,
  \<^verbatim>\<open>New\<close> returns an error and no provider, and has made no call to the cluster: the
  error of \<^verbatim>\<open>validateConfig\<close> when that check fails, and the error on the poll interval
  otherwise.
\<close>

theorem New_rejects_short_interval:
  assumes "ParseDuration (PollInterval c) = Inr pi" and "sint pi < 5000000000"
  shows "New ParseDuration NewProxmoxClient (Some c) nm w =
           (Inl (case validateConfig (Some c) of
                   Some err \<Rightarrow> Errorf ''invalid configuration'' err
                 | None \<Rightarrow> ErrorDuration ''poll interval must be at least 5 seconds, got '' pi),
            w)"
  using assms by (simp add: New_def five_seconds split: option.splits)

text \<open>The interval \<open>1s\<close> parses and is rejected.\<close>

theorem New_rejects_short_interval_witness:
  "New demoParseDuration (\<lambda>apiEndpoint tokenID token validateSSL logLevel. demoClient)
     (Some demoConfig) ''proxmox'' 0 =
   (Inl (ErrorDuration ''poll interval must be at least 5 seconds, got '' 1000000000), 0)"
proof -
  have p: "demoParseDuration (PollInterval demoConfig) = Inr 1000000000"
    by (simp add: demoParseDuration_def demoConfig_def)
  have s: "sint (1000000000 :: 64 word) < 5000000000"
    by simp
  have v: "validateConfig (Some demoConfig) = None"
    by (simp add: validateConfig_def demoConfig_def)
  show ?thesis
    using New_rejects_short_interval
        [where ParseDuration = demoParseDuration and c = demoConfig, OF p s]
    by (simp add: v)
qed

end
